theory Spec2Isabelle
  imports Main
begin

section \<open>helm-push: the command of cmd/helmpush/main.go\<close>

text \<open>
  The program is one Go file. Its own functions (\<open>RunE\<close> of \<open>newPushCmd\<close>,
  \<open>setFieldsFromEnv\<close>, \<open>setAccessTokenFromConfigFile\<close>, \<open>push\<close>, \<open>download\<close>,
  \<open>handlePushResponse\<close>, \<open>handleDownloadResponse\<close>, \<open>getChartmuseumError\<close>) are
  embedded below as HOL functions. What they call outside the file (the operating
  system, the packages \<open>helm\<close> and \<open>chartmuseum\<close>, the YAML, JSON and URL parsers)
  is collected in a record of collaborators, over which every theorem is universally
  quantified. Effects are explicit: the functions pass a state holding the existing
  file-system paths, the text written to standard output, and the trace of collaborator
  calls.
\<close>

subsection \<open>Strings of the Go standard library\<close>

text \<open>\<open>strings.HasPrefix(s, prefix)\<close>.\<close>

definition HasPrefix :: "string \<Rightarrow> string \<Rightarrow> bool" where
  "HasPrefix s pre = (take (length pre) s = pre)"

text \<open>
  \<open>strings.Split(s, sep)\<close> for a separator of one character, as at the only call site
  (\<open>"/"\<close>): the segments between the separators; the empty string gives one empty
  segment.
\<close>

fun Split :: "string \<Rightarrow> char \<Rightarrow> string list" where
  "Split [] c = [[]]"
| "Split (x # xs) c =
     (if x = c then [] # Split xs c
      else (case Split xs c of
              [] \<Rightarrow> [[x]]
            | seg # segs \<Rightarrow> (x # seg) # segs))"

text \<open>\<open>strings.Join(elems, sep)\<close>.\<close>

fun Join :: "string list \<Rightarrow> string \<Rightarrow> string" where
  "Join [] sep = []"
| "Join [x] sep = x"
| "Join (x # y # ys) sep = x @ sep @ Join (y # ys) sep"

text \<open>
  \<open>strings.Replace(s, old, new, 1)\<close>: the leftmost occurrence of \<open>old\<close> is replaced,
  and \<open>s\<close> is returned as it is when there is none. (An empty \<open>old\<close> matches at the
  start of the string.)
\<close>

fun Replace1 :: "string \<Rightarrow> string \<Rightarrow> string \<Rightarrow> string" where
  "Replace1 [] old new = (if old = [] then new else [])"
| "Replace1 (x # xs) old new =
     (if HasPrefix (x # xs) old then new @ drop (length old) (x # xs)
      else x # Replace1 xs old new)"

text \<open>The verb \<open>%d\<close> of \<open>fmt\<close>: an integer in decimal.\<close>

fun digits :: "nat \<Rightarrow> string" where
  "digits n =
     (if n < 10 then [''0123456789'' ! n]
      else digits (n div 10) @ [''0123456789'' ! (n mod 10)])"

definition fmt_d :: "int \<Rightarrow> string" where
  "fmt_d i = (if i < 0 then CHR ''-'' # digits (nat (- i)) else digits (nat i))"

text \<open>
  \<open>strconv.ParseBool\<close>: it accepts 1, t, T, TRUE, true, True, 0, f, F, FALSE, false,
  False; any other value is a syntax error, returned together with \<open>false\<close>.
\<close>

datatype error = GoError string

definition ParseBool :: "string \<Rightarrow> bool \<times> error option" where
  "ParseBool str =
     (if str \<in> set [''1'', ''t'', ''T'', ''TRUE'', ''true'', ''True''] then (True, None)
      else if str \<in> set [''0'', ''f'', ''F'', ''FALSE'', ''false'', ''False''] then (False, None)
      else (False, Some (GoError ''invalid syntax'')))"

subsection \<open>The types of the program\<close>

record pushCmd =
  chartName :: string
  chartVersion :: string
  repoName :: string
  username :: string
  password :: string
  accessToken :: string
  authHeader :: string
  contextPath :: string
  forceUpload :: bool
  useHTTP :: bool
  caFile :: string
  certFile :: string
  keyFile :: string
  InsecureSkipVerify :: bool

text \<open>The type \<open>context\<close> of the program (an entry of the credentials file).\<close>

record context_t =
  Name :: string
  Token :: string

text \<open>
  \<open>Contexts\<close> is a Go map, which \<open>range\<close> visits in an unspecified order: the field
  holds the entries in the order in which the loop of this run visits them.
\<close>

record config =
  CurrentContext :: string
  Contexts :: "(string \<times> context_t) list"

subsection \<open>Collaborators and state\<close>

text \<open>\<open>helm.Repo\<close>, as far as the program reads it.\<close>

record Repo =
  URL :: string
  Username :: string
  Password :: string

text \<open>The options given to \<open>cm.NewClient\<close>: they determine the client.\<close>

record cm_options =
  cm_URL :: string
  cm_Username :: string
  cm_Password :: string
  cm_AccessToken :: string
  cm_AuthHeader :: string
  cm_ContextPath :: string
  cm_CAFile :: string
  cm_CertFile :: string
  cm_KeyFile :: string
  cm_InsecureSkipVerify :: bool

text \<open>\<open>url.URL\<close>.\<close>

record url_t =
  Scheme :: string
  Opaque :: string
  User :: string
  Host :: string
  Path :: string
  RawPath :: string
  RawQuery :: string
  Fragment :: string

text \<open>
  \<open>http.Response\<close>: the status code, and what \<open>ioutil.ReadAll(resp.Body)\<close> returns
  (the bytes of the body, or the error of the read).
\<close>

record Response =
  StatusCode :: int
  Body :: "error + string"

text \<open>The calls that leave the program, in the order in which they are made.\<close>

datatype call =
    Call_user_Current
  | Call_Stat string
  | Call_ReadFile string
  | Call_TempRepoFromURL string
  | Call_GetRepoByName string
  | Call_GetChartByName string
  | Call_NewClient cm_options
  | Call_TempDir "error + string"
  | Call_CreateChartPackage string
  | Call_UploadChartPackage cm_options string bool
  | Call_DownloadFile cm_options string
  | Call_RemoveAll string

text \<open>
  The state: the paths that exist on disk, the text printed so far, the calls made so far.
\<close>

record state =
  files :: "string set"
  stdout :: string
  calls :: "call list"

definition log_call :: "call \<Rightarrow> state \<Rightarrow> state" where
  "log_call c s = s\<lparr>calls := calls s @ [c]\<rparr>"

definition print :: "string \<Rightarrow> state \<Rightarrow> state" where
  "print str s = s\<lparr>stdout := stdout s @ str\<rparr>"

text \<open>
  The collaborators. A Go function returning a pointer and an error is a pair of
  options (\<open>None\<close> is \<open>nil\<close>). The packager and the uploader may change the files on
  disk in any way. \<open>os.RemoveAll\<close> returns its error and the files it leaves: it can fail
  and leave what it could not remove. \<open>'chart\<close> is \<open>helm.Chart\<close>.
\<close>

record 'chart world =
  LookupEnv :: "string \<Rightarrow> string option"
  user_Current :: "error + string"
  path_Join :: "string \<Rightarrow> string \<Rightarrow> string"
  Stat_IsNotExist :: "string \<Rightarrow> bool"
  ReadFile :: "string \<Rightarrow> error + string"
  yaml_Unmarshal :: "string \<Rightarrow> error + config"
  json_Unmarshal :: "string \<Rightarrow> error + string"
  url_Parse :: "string \<Rightarrow> error + url_t"
  url_String :: "url_t \<Rightarrow> string"
  filepath_Base :: "string \<Rightarrow> string"
  TempRepoFromURL :: "string \<Rightarrow> Repo option \<times> error option"
  GetRepoByName :: "string \<Rightarrow> Repo option \<times> error option"
  GetChartByName :: "string \<Rightarrow> 'chart option \<times> error option"
  SetVersion :: "string \<Rightarrow> 'chart \<Rightarrow> 'chart"
  NewClient :: "cm_options \<Rightarrow> error option"
  TempDir :: "string set \<Rightarrow> error + string"
  os_RemoveAll :: "string \<Rightarrow> string set \<Rightarrow> error option \<times> string set"
  CreateChartPackage :: "'chart option \<Rightarrow> string \<Rightarrow> string set \<Rightarrow> (string \<times> error option) \<times> string set"
  UploadChartPackage :: "cm_options \<Rightarrow> string \<Rightarrow> bool \<Rightarrow> string set \<Rightarrow> (Response option \<times> error option) \<times> string set"
  DownloadFile :: "cm_options \<Rightarrow> string \<Rightarrow> Response option \<times> error option"

text \<open>
  How a function ends: it returns its \<open>error\<close> (\<open>None\<close> is \<open>nil\<close>), or it panics on
  a nil pointer.
\<close>

datatype outcome = Return "error option" | Panic_nil_dereference

subsection \<open>setFieldsFromEnv and setAccessTokenFromConfigFile\<close>

text \<open>
  One string setting: the environment's value is taken when the variable is present
  and the field is empty.
\<close>

definition env_string :: "'chart world \<Rightarrow> string \<Rightarrow> string \<Rightarrow> string" where
  "env_string w name field =
     (case LookupEnv w name of
        Some v \<Rightarrow> if field = [] then v else field
      | None \<Rightarrow> field)"

text \<open>One boolean setting: when the variable is present, its parsed value is taken.\<close>

definition env_bool :: "'chart world \<Rightarrow> string \<Rightarrow> bool \<Rightarrow> bool" where
  "env_bool w name field =
     (case LookupEnv w name of
        Some v \<Rightarrow> fst (ParseBool v)
      | None \<Rightarrow> field)"

text \<open>The loop over the contexts: the first entry with the current name, then \<open>break\<close>.\<close>

fun find_context :: "(string \<times> context_t) list \<Rightarrow> string \<Rightarrow> context_t option" where
  "find_context [] cur = None"
| "find_context ((k, c) # rest) cur =
     (if Name c = cur then Some c else find_context rest cur)"

definition setAccessTokenFromConfigFile ::
  "'chart world \<Rightarrow> pushCmd \<Rightarrow> state \<Rightarrow> pushCmd \<times> state" where
  "setAccessTokenFromConfigFile w p s0 =
     (let s1 = log_call Call_user_Current s0
      in (case user_Current w of
            Inl err \<Rightarrow> (p, s1)
          | Inr homeDir \<Rightarrow>
              (let configPath = path_Join w homeDir ''.cfconfig'';
                   s2 = log_call (Call_Stat configPath) s1
               in if Stat_IsNotExist w configPath then (p, s2)
                  else
                    (let s3 = log_call (Call_ReadFile configPath) s2
                     in (case ReadFile w configPath of
                           Inl err \<Rightarrow> (p, s3)
                         | Inr yamlFile \<Rightarrow>
                             (case yaml_Unmarshal w yamlFile of
                                Inl err \<Rightarrow> (p, s3)
                              | Inr c \<Rightarrow>
                                  (case find_context (Contexts c) (CurrentContext c) of
                                     Some ctx \<Rightarrow> (p\<lparr>accessToken := Token ctx\<rparr>, s3)
                                   | None \<Rightarrow> (p, s3))))))))"

text \<open>The ten settings read from the environment (lines 107 to 138).\<close>

definition fields_from_env :: "'chart world \<Rightarrow> pushCmd \<Rightarrow> pushCmd" where
  "fields_from_env w p =
     p\<lparr>username := env_string w ''HELM_REPO_USERNAME'' (username p),
       password := env_string w ''HELM_REPO_PASSWORD'' (password p),
       accessToken := env_string w ''HELM_REPO_ACCESS_TOKEN'' (accessToken p),
       authHeader := env_string w ''HELM_REPO_AUTH_HEADER'' (authHeader p),
       contextPath := env_string w ''HELM_REPO_CONTEXT_PATH'' (contextPath p),
       useHTTP := env_bool w ''HELM_REPO_USE_HTTP'' (useHTTP p),
       caFile := env_string w ''HELM_REPO_CA_FILE'' (caFile p),
       certFile := env_string w ''HELM_REPO_CERT_FILE'' (certFile p),
       keyFile := env_string w ''HELM_REPO_KEY_FILE'' (keyFile p),
       InsecureSkipVerify := env_bool w ''HELM_REPO_INSECURE'' (InsecureSkipVerify p)\<rparr>"

definition setFieldsFromEnv ::
  "'chart world \<Rightarrow> pushCmd \<Rightarrow> state \<Rightarrow> pushCmd \<times> state" where
  "setFieldsFromEnv w p s =
     (let p' = fields_from_env w p in
      if accessToken p' = [] then setAccessTokenFromConfigFile w p' s
      else (p', s))"

subsection \<open>The response interpreter\<close>

definition getChartmuseumError :: "'chart world \<Rightarrow> string \<Rightarrow> int \<Rightarrow> error" where
  "getChartmuseumError w b code =
     (case json_Unmarshal w b of
        Inl err \<Rightarrow>
          GoError (fmt_d code @ '': could not properly parse response JSON: '' @ b)
      | Inr er_Error \<Rightarrow>
          if er_Error = []
          then GoError (fmt_d code @ '': could not properly parse response JSON: '' @ b)
          else GoError (fmt_d code @ '': '' @ er_Error))"

definition handlePushResponse ::
  "'chart world \<Rightarrow> Response \<Rightarrow> state \<Rightarrow> outcome \<times> state" where
  "handlePushResponse w resp s =
     (if StatusCode resp \<noteq> 201 then
        (case Body resp of
           Inl err \<Rightarrow> (Return (Some err), s)
         | Inr b \<Rightarrow> (Return (Some (getChartmuseumError w b (StatusCode resp))), s))
      else (Return None, print (''Done.'' @ [CHR 0x0A]) s))"

definition handleDownloadResponse ::
  "'chart world \<Rightarrow> Response \<Rightarrow> state \<Rightarrow> outcome \<times> state" where
  "handleDownloadResponse w resp s =
     (case Body resp of
        Inl err \<Rightarrow> (Return (Some err), s)
      | Inr b \<Rightarrow>
          if StatusCode resp \<noteq> 200
          then (Return (Some (getChartmuseumError w b (StatusCode resp))), s)
          else (Return None, print b s))"

subsection \<open>download\<close>

text \<open>
  Lines 258 to 272 of \<open>download\<close>: the path of the parsed URL is cut into the path
  left in the URL and the path of the file. \<open>None\<close> is the early return
  \<open>invalid file url\<close>.
\<close>

definition download_parts :: "string \<Rightarrow> (string \<times> string) option" where
  "download_parts urlPath =
     (let parts = Split urlPath CHR ''/'';
          numParts = length parts
      in if numParts \<le> 1 then None
         else
           let filePath = parts ! (numParts - 1);
               numRemoveParts = (1::nat)
           in if parts ! (numParts - 2) = ''charts''
              then Some (Join (take (numParts - (numRemoveParts + 1)) parts) ''/'',
                         ''charts/'' @ filePath)
              else Some (Join (take (numParts - numRemoveParts) parts) ''/'', filePath))"

definition client_options :: "pushCmd \<Rightarrow> string \<Rightarrow> string \<Rightarrow> string \<Rightarrow> cm_options" where
  "client_options p url usr pwd =
     \<lparr>cm_URL = url, cm_Username = usr, cm_Password = pwd,
      cm_AccessToken = accessToken p, cm_AuthHeader = authHeader p,
      cm_ContextPath = contextPath p, cm_CAFile = caFile p,
      cm_CertFile = certFile p, cm_KeyFile = keyFile p,
      cm_InsecureSkipVerify = InsecureSkipVerify p\<rparr>"

definition download ::
  "'chart world \<Rightarrow> pushCmd \<Rightarrow> string \<Rightarrow> state \<Rightarrow> outcome \<times> state" where
  "download w p fileURL s =
     (case url_Parse w fileURL of
        Inl err \<Rightarrow> (Return (Some err), s)
      | Inr parsedURL \<Rightarrow>
          (case download_parts (Path parsedURL) of
             None \<Rightarrow> (Return (Some (GoError (''invalid file url: '' @ fileURL))), s)
           | Some (basePath, filePath) \<Rightarrow>
               (let parsedURL1 = parsedURL\<lparr>Path := basePath\<rparr>;
                    parsedURL2 = parsedURL1\<lparr>Scheme := (if useHTTP p then ''http'' else ''https'')\<rparr>;
                    opts = client_options p (url_String w parsedURL2) (username p) (password p);
                    s1 = log_call (Call_NewClient opts) s
                in (case NewClient w opts of
                      Some err \<Rightarrow> (Return (Some err), s1)
                    | None \<Rightarrow>
                        (let s2 = log_call (Call_DownloadFile opts filePath) s1
                         in (case DownloadFile w opts filePath of
                               (resp, Some err) \<Rightarrow> (Return (Some err), s2)
                             | (None, None) \<Rightarrow> (Panic_nil_dereference, s2)
                             | (Some resp, None) \<Rightarrow> handleDownloadResponse w resp s2))))))"

subsection \<open>push\<close>

text \<open>The regular expression \<open>^https?://\<close>.\<close>

definition matches_https_URL :: "string \<Rightarrow> bool" where
  "matches_https_URL str = (HasPrefix str ''http://'' \<or> HasPrefix str ''https://'')"

text \<open>
  Lines 176 to 185: the repository is located. In the first branch \<open>repo.URL\<close> is read
  before \<open>err\<close> is looked at. \<open>Inl\<close> is the end of \<open>push\<close>; \<open>Inr\<close> carries \<open>repo\<close>
  and the command with its new \<open>repoName\<close>.
\<close>

definition push_repo ::
  "'chart world \<Rightarrow> pushCmd \<Rightarrow> state \<Rightarrow> (outcome + Repo option \<times> pushCmd) \<times> state" where
  "push_repo w p s =
     (if matches_https_URL (repoName p) then
        (let s1 = log_call (Call_TempRepoFromURL (repoName p)) s
         in (case TempRepoFromURL w (repoName p) of
               (None, err) \<Rightarrow> (Inl Panic_nil_dereference, s1)
             | (Some repo, err) \<Rightarrow>
                 (let p1 = p\<lparr>repoName := URL repo\<rparr>
                  in (case err of
                        Some e \<Rightarrow> (Inl (Return (Some e)), s1)
                      | None \<Rightarrow> (Inr (Some repo, p1), s1)))))
      else
        (let s1 = log_call (Call_GetRepoByName (repoName p)) s
         in (case GetRepoByName w (repoName p) of
               (repo, Some e) \<Rightarrow> (Inl (Return (Some e)), s1)
             | (repo, None) \<Rightarrow> (Inr (repo, p), s1))))"

text \<open>Lines 207 to 213: the \<open>cm://\<close> of a stored repository URL is replaced.\<close>

definition push_url :: "pushCmd \<Rightarrow> string \<Rightarrow> string" where
  "push_url p repoURL =
     (if useHTTP p then Replace1 repoURL ''cm://'' ''http://''
      else Replace1 repoURL ''cm://'' ''https://'')"

text \<open>Lines 238 to 249: what runs between \<open>defer os.RemoveAll(tmp)\<close> and its call.\<close>

definition push_upload ::
  "'chart world \<Rightarrow> pushCmd \<Rightarrow> 'chart option \<Rightarrow> cm_options \<Rightarrow> string \<Rightarrow> state
    \<Rightarrow> outcome \<times> state" where
  "push_upload w p chart opts tmp s =
     (case CreateChartPackage w chart tmp (files s) of
        ((chartPackagePath, err), fs1) \<Rightarrow>
          (let s1 = log_call (Call_CreateChartPackage tmp) (s\<lparr>files := fs1\<rparr>)
           in (case err of
                 Some e \<Rightarrow> (Return (Some e), s1)
               | None \<Rightarrow>
                   (let s2 = print (''Pushing '' @ filepath_Base w chartPackagePath @ '' to ''
                                     @ repoName p @ ''...'' @ [CHR 0x0A]) s1
                    in (case UploadChartPackage w opts chartPackagePath (forceUpload p) (files s2) of
                          ((resp, err2), fs2) \<Rightarrow>
                            (let s3 = log_call (Call_UploadChartPackage opts chartPackagePath (forceUpload p))
                                        (s2\<lparr>files := fs2\<rparr>)
                             in (case err2 of
                                   Some e \<Rightarrow> (Return (Some e), s3)
                                 | None \<Rightarrow>
                                     (case resp of
                                        None \<Rightarrow> (Panic_nil_dereference, s3)
                                      | Some r \<Rightarrow> handlePushResponse w r s3))))))))"

text \<open>
  Lines 232 to 249: the temporary directory, and the deferred \<open>os.RemoveAll\<close>, which
  runs when the rest has returned or panicked. Its error is dropped: the outcome is the
  one of the rest.
\<close>

definition push_tmp ::
  "'chart world \<Rightarrow> pushCmd \<Rightarrow> 'chart option \<Rightarrow> cm_options \<Rightarrow> state \<Rightarrow> outcome \<times> state" where
  "push_tmp w p chart opts s =
     (case TempDir w (files s) of
        Inl e \<Rightarrow> (Return (Some e), log_call (Call_TempDir (Inl e)) s)
      | Inr tmp \<Rightarrow>
          (let s1 = log_call (Call_TempDir (Inr tmp)) (s\<lparr>files := insert tmp (files s)\<rparr>)
           in (case push_upload w p chart opts tmp s1 of
                 (res, s2) \<Rightarrow>
                   (res, log_call (Call_RemoveAll tmp) (s2\<lparr>files := snd (os_RemoveAll w tmp (files s2))\<rparr>)))))"

definition push :: "'chart world \<Rightarrow> pushCmd \<Rightarrow> state \<Rightarrow> outcome \<times> state" where
  "push w p0 s0 =
     (case push_repo w p0 s0 of
        (Inl res, s1) \<Rightarrow> (res, s1)
      | (Inr (repo, p), s1) \<Rightarrow>
          (let s2 = log_call (Call_GetChartByName (chartName p)) s1
           in (case GetChartByName w (chartName p) of
                 (chart, Some e) \<Rightarrow> (Return (Some e), s2)
               | (chart, None) \<Rightarrow>
                   (if chartVersion p \<noteq> [] \<and> chart = None then (Panic_nil_dereference, s2)
                    else
                      (let chart1 = (if chartVersion p \<noteq> []
                                     then map_option (SetVersion w (chartVersion p)) chart
                                     else chart)
                       in (case repo of
                             None \<Rightarrow> (Panic_nil_dereference, s2)
                           | Some r \<Rightarrow>
                               (let usr = (if username p \<noteq> [] then username p else Username r);
                                    pwd = (if password p \<noteq> [] then password p else Password r);
                                    url = push_url p (URL r);
                                    opts = client_options p url usr pwd;
                                    s3 = log_call (Call_NewClient opts) s2
                                in (case NewClient w opts of
                                      Some e \<Rightarrow> (Return (Some e), s3)
                                    | None \<Rightarrow> push_tmp w p chart1 opts s3))))))))"

subsection \<open>The command: RunE of newPushCmd\<close>

definition RunE :: "'chart world \<Rightarrow> pushCmd \<Rightarrow> string list \<Rightarrow> state \<Rightarrow> outcome \<times> state" where
  "RunE w p args s =
     (if length args = 4 \<and> HasPrefix (args ! 3) ''cm://'' then
        (case setFieldsFromEnv w p s of
           (p1, s1) \<Rightarrow> download w p1 (args ! 3) s1)
      else if length args \<noteq> 2 then
        (Return (Some (GoError
           ''This command needs 2 arguments: name of chart, name of chart repository (or repo URL)'')), s)
      else
        (case setFieldsFromEnv w (p\<lparr>chartName := args ! 0, repoName := args ! 1\<rparr>) s of
           (p1, s1) \<Rightarrow> push w p1 s1))"

subsection \<open>An example run\<close>

text \<open>
  A concrete set of collaborators, a command and a state, on which the functions can be
  evaluated. The URL parser of the example cuts \<open>cm://host/path\<close> at the first
  \<open>/\<close> after the scheme. Its \<open>os.RemoveAll\<close> succeeds: the path and everything
  below it are removed.
\<close>

definition example_RemoveAll :: "string \<Rightarrow> string set \<Rightarrow> error option \<times> string set" where
  "example_RemoveAll path fs = (None, {q \<in> fs. \<not> (q = path \<or> HasPrefix q (path @ ''/''))})"

definition example_world :: "unit world" where
  \<open>example_world =
     \<lparr>LookupEnv = (\<lambda>name. if name = ''HELM_REPO_USERNAME'' then Some ''admin''
                          else if name = ''HELM_REPO_PASSWORD'' then Some ''env-password''
                          else if name = ''HELM_REPO_ACCESS_TOKEN'' then Some ''env-token''
                          else if name = ''HELM_REPO_USE_HTTP'' then Some ''true''
                          else if name = ''HELM_REPO_INSECURE'' then Some ''no''
                          else None),
      user_Current = Inr ''/home/dev'',
      path_Join = (\<lambda>a b. a @ ''/'' @ b),
      Stat_IsNotExist = (\<lambda>path. False),
      ReadFile = (\<lambda>path. Inr ''current-context: prod''),
      yaml_Unmarshal = (\<lambda>text. Inr \<lparr>CurrentContext = ''prod'',
         Contexts = [(''a'', \<lparr>Name = ''dev'', Token = ''t-dev''\<rparr>),
                     (''b'', \<lparr>Name = ''prod'', Token = ''t-prod''\<rparr>)]\<rparr>),
      json_Unmarshal = (\<lambda>b. if b = ''{"error":"version already exists"}''
                           then Inr ''version already exists''
                           else Inl (GoError ''invalid character'')),
      url_Parse = (\<lambda>str. Inr \<lparr>Scheme = ''cm'', Opaque = [], User = [],
         Host = takeWhile (\<lambda>c. c \<noteq> CHR ''/'') (drop 5 str),
         Path = dropWhile (\<lambda>c. c \<noteq> CHR ''/'') (drop 5 str),
         RawPath = [], RawQuery = [], Fragment = []\<rparr>),
      url_String = (\<lambda>u. Scheme u @ ''://'' @ Host u @ Path u),
      filepath_Base = (\<lambda>path. last (Split path CHR ''/'')),
      TempRepoFromURL = (\<lambda>url. (Some \<lparr>URL = url, Username = [], Password = []\<rparr>, None)),
      GetRepoByName = (\<lambda>name. (Some \<lparr>URL = ''cm://repo.example.com/library'',
         Username = ''u'', Password = ''pw''\<rparr>, None)),
      GetChartByName = (\<lambda>name. (Some (), None)),
      SetVersion = (\<lambda>v c. c),
      NewClient = (\<lambda>opts. None),
      TempDir = (\<lambda>fs. Inr ''/tmp/helm-push-1''),
      os_RemoveAll = example_RemoveAll,
      CreateChartPackage = (\<lambda>chart dir fs.
         ((dir @ ''/mychart-0.1.0.tgz'', None), insert (dir @ ''/mychart-0.1.0.tgz'') fs)),
      UploadChartPackage = (\<lambda>opts path force fs.
         ((Some \<lparr>StatusCode = 201, Body = Inr []\<rparr>, None), fs)),
      DownloadFile = (\<lambda>opts path. (Some \<lparr>StatusCode = 200, Body = Inr ''abc''\<rparr>, None))\<rparr>\<close>

definition example_cmd :: pushCmd where
  "example_cmd =
     \<lparr>chartName = [], chartVersion = [], repoName = [], username = [], password = ''secret'',
      accessToken = [], authHeader = [], contextPath = [], forceUpload = False, useHTTP = False,
      caFile = [], certFile = [], keyFile = [], InsecureSkipVerify = True\<rparr>"

definition example_state :: state where
  "example_state = \<lparr>files = {}, stdout = [], calls = []\<rparr>"

text \<open>The same collaborators with an empty environment.\<close>

definition example_world_no_env :: "unit world" where
  "example_world_no_env = example_world\<lparr>LookupEnv := (\<lambda>name. None)\<rparr>"

subsection \<open>Kinds of calls\<close>

text \<open>The calls made for the credentials file.\<close>

fun is_config_call :: "call \<Rightarrow> bool" where
  "is_config_call Call_user_Current = True"
| "is_config_call (Call_Stat path) = True"
| "is_config_call (Call_ReadFile path) = True"
| "is_config_call c = False"

text \<open>The calls that go to the network: the upload and the download.\<close>

fun is_network_call :: "call \<Rightarrow> bool" where
  "is_network_call (Call_UploadChartPackage opts path force) = True"
| "is_network_call (Call_DownloadFile opts path) = True"
| "is_network_call c = False"

text \<open>The calls that only \<open>push\<close> makes, and the call that only \<open>download\<close> makes.\<close>

fun is_push_call :: "call \<Rightarrow> bool" where
  "is_push_call (Call_TempRepoFromURL url) = True"
| "is_push_call (Call_GetRepoByName name) = True"
| "is_push_call (Call_GetChartByName name) = True"
| "is_push_call (Call_TempDir res) = True"
| "is_push_call (Call_CreateChartPackage dir) = True"
| "is_push_call (Call_UploadChartPackage opts path force) = True"
| "is_push_call (Call_RemoveAll path) = True"
| "is_push_call c = False"

fun is_download_call :: "call \<Rightarrow> bool" where
  "is_download_call (Call_DownloadFile opts path) = True"
| "is_download_call c = False"

text \<open>The example command as a push of the chart \<open>mychart\<close> to the repository \<open>chartmuseum\<close>.\<close>

definition example_push_cmd :: pushCmd where
  "example_push_cmd = example_cmd\<lparr>chartName := ''mychart'', repoName := ''chartmuseum''\<rparr>"

text \<open>The example command as a push to a repository given by its URL.\<close>

definition example_url_cmd :: pushCmd where
  "example_url_cmd = example_cmd\<lparr>chartName := ''mychart'', repoName := ''https://charts.example.com''\<rparr>"


section \<open>The settings: flags, environment, credentials file\<close>

lemma setAccessToken_frame:
  "fst (setAccessTokenFromConfigFile w p s) =
     p\<lparr>accessToken := accessToken (fst (setAccessTokenFromConfigFile w p s))\<rparr>"
  by (simp add: setAccessTokenFromConfigFile_def Let_def split: sum.splits option.splits)

lemma setFieldsFromEnv_frame:
  "fst (setFieldsFromEnv w p s) =
     (fields_from_env w p)\<lparr>accessToken := accessToken (fst (setFieldsFromEnv w p s))\<rparr>"
  using setAccessToken_frame [of w "fields_from_env w p" s]
  by (simp add: setFieldsFromEnv_def Let_def)

lemma setFieldsFromEnv_token:
  "accessToken (fields_from_env w p) \<noteq> [] \<Longrightarrow>
   setFieldsFromEnv w p s = (fields_from_env w p, s)"
  by (simp add: setFieldsFromEnv_def Let_def)

lemma fields_plain:
  "username (fields_from_env w p) = env_string w ''HELM_REPO_USERNAME'' (username p)"
  "password (fields_from_env w p) = env_string w ''HELM_REPO_PASSWORD'' (password p)"
  "accessToken (fields_from_env w p) = env_string w ''HELM_REPO_ACCESS_TOKEN'' (accessToken p)"
  "authHeader (fields_from_env w p) = env_string w ''HELM_REPO_AUTH_HEADER'' (authHeader p)"
  "contextPath (fields_from_env w p) = env_string w ''HELM_REPO_CONTEXT_PATH'' (contextPath p)"
  "caFile (fields_from_env w p) = env_string w ''HELM_REPO_CA_FILE'' (caFile p)"
  "certFile (fields_from_env w p) = env_string w ''HELM_REPO_CERT_FILE'' (certFile p)"
  "keyFile (fields_from_env w p) = env_string w ''HELM_REPO_KEY_FILE'' (keyFile p)"
  "useHTTP (fields_from_env w p) = env_bool w ''HELM_REPO_USE_HTTP'' (useHTTP p)"
  "InsecureSkipVerify (fields_from_env w p) = env_bool w ''HELM_REPO_INSECURE'' (InsecureSkipVerify p)"
  "chartName (fields_from_env w p) = chartName p"
  "chartVersion (fields_from_env w p) = chartVersion p"
  "repoName (fields_from_env w p) = repoName p"
  "forceUpload (fields_from_env w p) = forceUpload p"
  by (simp_all add: fields_from_env_def)

lemma env_string_rule:
  "env_string w name field =
     (if field = [] then (case LookupEnv w name of Some v \<Rightarrow> v | None \<Rightarrow> []) else field)"
  by (simp add: env_string_def split: option.splits)

text \<open>
  Claim C1. Whatever the flags and the environment are, after \<open>setFieldsFromEnv\<close>
  each of the seven plain string settings (username, password, authHeader, contextPath,
  caFile, certFile, keyFile) is its flag value when that is not empty, and otherwise the
  value of its environment variable (empty when the variable is absent). The access token
  keeps a non-empty flag value, and with an empty flag it is the non-empty value of its
  variable. Each of the two boolean settings (useHTTP, InsecureSkipVerify) is the parsed
  value of its environment variable whenever the variable is present, whatever the flag
  was (a value that does not parse gives \<open>false\<close>), and the flag value otherwise.
\<close>

theorem setFieldsFromEnv_precedence:
  assumes "setFieldsFromEnv w p s = (q, s')"
  shows
   "username q = (if username p = [] then (case LookupEnv w ''HELM_REPO_USERNAME'' of Some v \<Rightarrow> v | None \<Rightarrow> []) else username p)
  \<and> password q = (if password p = [] then (case LookupEnv w ''HELM_REPO_PASSWORD'' of Some v \<Rightarrow> v | None \<Rightarrow> []) else password p)
  \<and> (accessToken p \<noteq> [] \<longrightarrow> accessToken q = accessToken p)
  \<and> (\<forall>v. accessToken p = [] \<and> LookupEnv w ''HELM_REPO_ACCESS_TOKEN'' = Some v \<and> v \<noteq> [] \<longrightarrow> accessToken q = v)
  \<and> authHeader q = (if authHeader p = [] then (case LookupEnv w ''HELM_REPO_AUTH_HEADER'' of Some v \<Rightarrow> v | None \<Rightarrow> []) else authHeader p)
  \<and> contextPath q = (if contextPath p = [] then (case LookupEnv w ''HELM_REPO_CONTEXT_PATH'' of Some v \<Rightarrow> v | None \<Rightarrow> []) else contextPath p)
  \<and> caFile q = (if caFile p = [] then (case LookupEnv w ''HELM_REPO_CA_FILE'' of Some v \<Rightarrow> v | None \<Rightarrow> []) else caFile p)
  \<and> certFile q = (if certFile p = [] then (case LookupEnv w ''HELM_REPO_CERT_FILE'' of Some v \<Rightarrow> v | None \<Rightarrow> []) else certFile p)
  \<and> keyFile q = (if keyFile p = [] then (case LookupEnv w ''HELM_REPO_KEY_FILE'' of Some v \<Rightarrow> v | None \<Rightarrow> []) else keyFile p)
  \<and> useHTTP q = (case LookupEnv w ''HELM_REPO_USE_HTTP'' of Some v \<Rightarrow> fst (ParseBool v) | None \<Rightarrow> useHTTP p)
  \<and> InsecureSkipVerify q = (case LookupEnv w ''HELM_REPO_INSECURE'' of Some v \<Rightarrow> fst (ParseBool v) | None \<Rightarrow> InsecureSkipVerify p)"
proof -
  have q: "q = (fields_from_env w p)\<lparr>accessToken := accessToken q\<rparr>"
    using setFieldsFromEnv_frame [of w p s] assms by simp
  have tok: "accessToken (fields_from_env w p) \<noteq> [] \<Longrightarrow>
      accessToken q = accessToken (fields_from_env w p)"
    using setFieldsFromEnv_token [of w p s] assms by simp
  have a: "accessToken p \<noteq> [] \<longrightarrow> accessToken q = accessToken p"
    using tok by (simp add: fields_plain env_string_rule)
  have b: "\<forall>v. accessToken p = [] \<and> LookupEnv w ''HELM_REPO_ACCESS_TOKEN'' = Some v \<and> v \<noteq> []
      \<longrightarrow> accessToken q = v"
    using tok by (simp add: fields_plain env_string_rule)
  have c: "username q = username (fields_from_env w p)"
    "password q = password (fields_from_env w p)"
    "authHeader q = authHeader (fields_from_env w p)"
    "contextPath q = contextPath (fields_from_env w p)"
    "caFile q = caFile (fields_from_env w p)"
    "certFile q = certFile (fields_from_env w p)"
    "keyFile q = keyFile (fields_from_env w p)"
    "useHTTP q = useHTTP (fields_from_env w p)"
    "InsecureSkipVerify q = InsecureSkipVerify (fields_from_env w p)"
    by (subst q, simp)+
  show ?thesis
    unfolding c fields_plain env_string_rule [symmetric]
    using a b by (simp add: env_bool_def)
qed

text \<open>
  In the example the password flag \<open>secret\<close> stays although the variable is set, the
  empty username and access token take the values of their variables, a non-empty
  access-token flag stays, and the two booleans follow the variables \<open>true\<close> and
  \<open>no\<close> against the flags \<open>false\<close> and \<open>true\<close>.
\<close>

theorem setFieldsFromEnv_precedence_witness:
  "username (fst (setFieldsFromEnv example_world example_cmd example_state)) = ''admin''
 \<and> password (fst (setFieldsFromEnv example_world example_cmd example_state)) = ''secret''
 \<and> accessToken (fst (setFieldsFromEnv example_world example_cmd example_state)) = ''env-token''
 \<and> accessToken (fst (setFieldsFromEnv example_world
      (example_cmd\<lparr>accessToken := ''flag-token''\<rparr>) example_state)) = ''flag-token''
 \<and> useHTTP (fst (setFieldsFromEnv example_world example_cmd example_state)) = True
 \<and> InsecureSkipVerify (fst (setFieldsFromEnv example_world example_cmd example_state)) = False"
proof -
  have e: "LookupEnv example_world ''HELM_REPO_USERNAME'' = Some ''admin''"
    "LookupEnv example_world ''HELM_REPO_PASSWORD'' = Some ''env-password''"
    "LookupEnv example_world ''HELM_REPO_ACCESS_TOKEN'' = Some ''env-token''"
    "LookupEnv example_world ''HELM_REPO_USE_HTTP'' = Some ''true''"
    "LookupEnv example_world ''HELM_REPO_INSECURE'' = Some ''no''"
    by (simp_all add: example_world_def)
  have "setFieldsFromEnv example_world example_cmd example_state =
      (fst (setFieldsFromEnv example_world example_cmd example_state),
       snd (setFieldsFromEnv example_world example_cmd example_state))"
    by simp
  from setFieldsFromEnv_precedence [OF this]
  have 1: "username (fst (setFieldsFromEnv example_world example_cmd example_state)) = ''admin''"
    "password (fst (setFieldsFromEnv example_world example_cmd example_state)) = ''secret''"
    "accessToken (fst (setFieldsFromEnv example_world example_cmd example_state)) = ''env-token''"
    "useHTTP (fst (setFieldsFromEnv example_world example_cmd example_state)) = True"
    "InsecureSkipVerify (fst (setFieldsFromEnv example_world example_cmd example_state)) = False"
    by (simp_all add: e example_cmd_def ParseBool_def)
  have "setFieldsFromEnv example_world (example_cmd\<lparr>accessToken := ''flag-token''\<rparr>) example_state =
      (fst (setFieldsFromEnv example_world (example_cmd\<lparr>accessToken := ''flag-token''\<rparr>) example_state),
       snd (setFieldsFromEnv example_world (example_cmd\<lparr>accessToken := ''flag-token''\<rparr>) example_state))"
    by simp
  from setFieldsFromEnv_precedence [OF this]
  have 2: "accessToken (fst (setFieldsFromEnv example_world
      (example_cmd\<lparr>accessToken := ''flag-token''\<rparr>) example_state)) = ''flag-token''"
    by simp
  show ?thesis using 1 2 by simp
qed

lemma find_context_Some:
  "find_context cs cur = Some ctx \<Longrightarrow> (\<exists>k. (k, ctx) \<in> set cs) \<and> Name ctx = cur"
  by (induction cs cur rule: find_context.induct) (auto split: if_splits)

lemma find_context_None:
  "find_context cs cur = None \<longleftrightarrow> (\<forall>(k, ctx) \<in> set cs. Name ctx \<noteq> cur)"
  by (induction cs cur rule: find_context.induct) auto

lemma no_token_after_env:
  "accessToken (fields_from_env w p) = [] \<longleftrightarrow>
     accessToken p = [] \<and>
     (LookupEnv w ''HELM_REPO_ACCESS_TOKEN'' = None \<or> LookupEnv w ''HELM_REPO_ACCESS_TOKEN'' = Some [])"
  by (auto simp: fields_plain env_string_rule split: option.splits)

lemma lookup_only_without_token:
  "calls (snd (setFieldsFromEnv w p s)) \<noteq> calls s \<Longrightarrow> accessToken (fields_from_env w p) = []"
  by (cases "accessToken (fields_from_env w p) = []") (simp_all add: setFieldsFromEnv_def Let_def)

lemma setAccessToken_cases:
  "fst (setAccessTokenFromConfigFile w p s) = p \<or>
   (\<exists>home yamlFile c k ctx.
      user_Current w = Inr home \<and>
      \<not> Stat_IsNotExist w (path_Join w home ''.cfconfig'') \<and>
      ReadFile w (path_Join w home ''.cfconfig'') = Inr yamlFile \<and>
      yaml_Unmarshal w yamlFile = Inr c \<and>
      (k, ctx) \<in> set (Contexts c) \<and> Name ctx = CurrentContext c \<and>
      fst (setAccessTokenFromConfigFile w p s) = p\<lparr>accessToken := Token ctx\<rparr>)"
proof (cases "user_Current w")
  case (Inl e)
  then show ?thesis by (simp add: setAccessTokenFromConfigFile_def Let_def)
next
  case (Inr home)
  note h = this
  show ?thesis
  proof (cases "Stat_IsNotExist w (path_Join w home ''.cfconfig'')")
    case True
    with h show ?thesis by (simp add: setAccessTokenFromConfigFile_def Let_def)
  next
    case False
    note st = this
    show ?thesis
    proof (cases "ReadFile w (path_Join w home ''.cfconfig'')")
      case (Inl e)
      with h st show ?thesis by (simp add: setAccessTokenFromConfigFile_def Let_def)
    next
      case (Inr yamlFile)
      note rf = this
      show ?thesis
      proof (cases "yaml_Unmarshal w yamlFile")
        case (Inl e)
        with h st rf show ?thesis by (simp add: setAccessTokenFromConfigFile_def Let_def)
      next
        case (Inr c)
        note y = this
        show ?thesis
        proof (cases "find_context (Contexts c) (CurrentContext c)")
          case None
          with h st rf y show ?thesis by (simp add: setAccessTokenFromConfigFile_def Let_def)
        next
          case (Some ctx)
          from find_context_Some [OF this] obtain k where
            "(k, ctx) \<in> set (Contexts c)" "Name ctx = CurrentContext c" by blast
          with h st rf y Some show ?thesis
            by (auto simp: setAccessTokenFromConfigFile_def Let_def)
        qed
      qed
    qed
  qed
qed

lemma setAccessToken_failures:
  "user_Current w = Inl e \<Longrightarrow> fst (setAccessTokenFromConfigFile w p s) = p"
  "user_Current w = Inr home \<Longrightarrow> Stat_IsNotExist w (path_Join w home ''.cfconfig'') \<Longrightarrow>
     fst (setAccessTokenFromConfigFile w p s) = p"
  "user_Current w = Inr home \<Longrightarrow> ReadFile w (path_Join w home ''.cfconfig'') = Inl e \<Longrightarrow>
     fst (setAccessTokenFromConfigFile w p s) = p"
  "user_Current w = Inr home \<Longrightarrow> ReadFile w (path_Join w home ''.cfconfig'') = Inr yamlFile \<Longrightarrow>
     yaml_Unmarshal w yamlFile = Inl e \<Longrightarrow> fst (setAccessTokenFromConfigFile w p s) = p"
  "user_Current w = Inr home \<Longrightarrow> ReadFile w (path_Join w home ''.cfconfig'') = Inr yamlFile \<Longrightarrow>
     yaml_Unmarshal w yamlFile = Inr c \<Longrightarrow> \<forall>(k, ctx) \<in> set (Contexts c). Name ctx \<noteq> CurrentContext c \<Longrightarrow>
     fst (setAccessTokenFromConfigFile w p s) = p"
  by (simp_all add: setAccessTokenFromConfigFile_def Let_def find_context_None [symmetric])


lemma setAccessToken_calls:
  "\<exists>cs. calls (snd (setAccessTokenFromConfigFile w p s)) = calls s @ cs \<and>
        set cs \<subseteq> {Call_user_Current} \<union> range Call_Stat \<union> range Call_ReadFile"
  by (simp add: setAccessTokenFromConfigFile_def Let_def log_call_def
      split: sum.splits option.splits)

lemma setAccessToken_state:
  "files (snd (setAccessTokenFromConfigFile w p s)) = files s"
  "stdout (snd (setAccessTokenFromConfigFile w p s)) = stdout s"
  by (simp_all add: setAccessTokenFromConfigFile_def Let_def log_call_def
      split: sum.splits option.splits)

text \<open>
  Claim C7. \<open>setFieldsFromEnv\<close> reaches the credentials file (the calls
  \<open>user.Current\<close>, \<open>os.Stat\<close>, \<open>ioutil.ReadFile\<close>) only when no access token is
  set: the flag is empty and the variable is absent or empty. The lookup
  \<open>setAccessTokenFromConfigFile\<close> either leaves the command as it was, or sets the
  access token to the token of an entry of \<open>contexts\<close> whose name is the name of the
  current context, and changes nothing else. When the user is unknown, the file is
  missing, the file cannot be read, the contents do not parse, or no entry has the
  current name, the command is left as it was; the function has no result besides, so
  there is no error to return.
\<close>

theorem credentials_file_lookup:
  "(calls (snd (setFieldsFromEnv w p s)) \<noteq> calls s \<longrightarrow>
      accessToken p = [] \<and>
      (LookupEnv w ''HELM_REPO_ACCESS_TOKEN'' = None \<or>
       LookupEnv w ''HELM_REPO_ACCESS_TOKEN'' = Some []))
 \<and> (fst (setAccessTokenFromConfigFile w p s) = p \<or>
     (\<exists>home yamlFile c k ctx.
        user_Current w = Inr home \<and>
        \<not> Stat_IsNotExist w (path_Join w home ''.cfconfig'') \<and>
        ReadFile w (path_Join w home ''.cfconfig'') = Inr yamlFile \<and>
        yaml_Unmarshal w yamlFile = Inr c \<and>
        (k, ctx) \<in> set (Contexts c) \<and> Name ctx = CurrentContext c \<and>
        fst (setAccessTokenFromConfigFile w p s) = p\<lparr>accessToken := Token ctx\<rparr>))
 \<and> (\<forall>e. user_Current w = Inl e \<longrightarrow> fst (setAccessTokenFromConfigFile w p s) = p)
 \<and> (\<forall>home. user_Current w = Inr home \<and> Stat_IsNotExist w (path_Join w home ''.cfconfig'')
       \<longrightarrow> fst (setAccessTokenFromConfigFile w p s) = p)
 \<and> (\<forall>home e. user_Current w = Inr home \<and> ReadFile w (path_Join w home ''.cfconfig'') = Inl e
       \<longrightarrow> fst (setAccessTokenFromConfigFile w p s) = p)
 \<and> (\<forall>home yamlFile e. user_Current w = Inr home \<and>
        ReadFile w (path_Join w home ''.cfconfig'') = Inr yamlFile \<and>
        yaml_Unmarshal w yamlFile = Inl e
       \<longrightarrow> fst (setAccessTokenFromConfigFile w p s) = p)
 \<and> (\<forall>home yamlFile c. user_Current w = Inr home \<and>
        ReadFile w (path_Join w home ''.cfconfig'') = Inr yamlFile \<and>
        yaml_Unmarshal w yamlFile = Inr c \<and>
        (\<forall>(k, ctx) \<in> set (Contexts c). Name ctx \<noteq> CurrentContext c)
       \<longrightarrow> fst (setAccessTokenFromConfigFile w p s) = p)"
  using lookup_only_without_token [of w p s] no_token_after_env [of w p]
    setAccessToken_cases [of w p s] setAccessToken_failures [where w = w and p = p and s = s]
  by blast

text \<open>
  With an empty environment the example reads \<open>/home/dev/.cfconfig\<close> and takes the
  token of the context \<open>prod\<close>; with the variable set nothing is read; each of the five
  failures leaves the command unchanged.
\<close>

theorem credentials_file_lookup_witness:
  "setFieldsFromEnv example_world_no_env example_cmd example_state =
     (example_cmd\<lparr>accessToken := ''t-prod''\<rparr>,
      example_state\<lparr>calls := [Call_user_Current, Call_Stat ''/home/dev/.cfconfig'',
                               Call_ReadFile ''/home/dev/.cfconfig'']\<rparr>)
 \<and> setFieldsFromEnv example_world example_cmd example_state =
     (example_cmd\<lparr>username := ''admin'', accessToken := ''env-token'', useHTTP := True,
                  InsecureSkipVerify := False\<rparr>, example_state)
 \<and> fst (setAccessTokenFromConfigFile (example_world\<lparr>user_Current := Inl (GoError ''no user'')\<rparr>)
          example_cmd example_state) = example_cmd
 \<and> fst (setAccessTokenFromConfigFile (example_world\<lparr>Stat_IsNotExist := (\<lambda>path. True)\<rparr>)
          example_cmd example_state) = example_cmd
 \<and> fst (setAccessTokenFromConfigFile (example_world\<lparr>ReadFile := (\<lambda>path. Inl (GoError ''permission denied''))\<rparr>)
          example_cmd example_state) = example_cmd
 \<and> fst (setAccessTokenFromConfigFile (example_world\<lparr>yaml_Unmarshal := (\<lambda>text. Inl (GoError ''yaml: bad indentation''))\<rparr>)
          example_cmd example_state) = example_cmd
 \<and> fst (setAccessTokenFromConfigFile
          (example_world\<lparr>yaml_Unmarshal := (\<lambda>text. Inr \<lparr>CurrentContext = ''staging'',
              Contexts = [(''a'', \<lparr>Name = ''dev'', Token = ''t-dev''\<rparr>)]\<rparr>)\<rparr>)
          example_cmd example_state) = example_cmd"
proof -
  note th = credentials_file_lookup
  have 1: "setFieldsFromEnv example_world_no_env example_cmd example_state =
     (example_cmd\<lparr>accessToken := ''t-prod''\<rparr>,
      example_state\<lparr>calls := [Call_user_Current, Call_Stat ''/home/dev/.cfconfig'',
                               Call_ReadFile ''/home/dev/.cfconfig'']\<rparr>)"
    by (simp add: setFieldsFromEnv_def fields_from_env_def env_string_def env_bool_def
        setAccessTokenFromConfigFile_def Let_def log_call_def
        example_world_no_env_def example_world_def example_cmd_def example_state_def)
  have 2: "setFieldsFromEnv example_world example_cmd example_state =
     (example_cmd\<lparr>username := ''admin'', accessToken := ''env-token'', useHTTP := True,
                  InsecureSkipVerify := False\<rparr>, example_state)"
    by (simp add: setFieldsFromEnv_def fields_from_env_def env_string_def env_bool_def
        ParseBool_def Let_def example_world_def example_cmd_def)
  have 3: "fst (setAccessTokenFromConfigFile (example_world\<lparr>user_Current := Inl (GoError ''no user'')\<rparr>)
          example_cmd example_state) = example_cmd"
    using th [of "example_world\<lparr>user_Current := Inl (GoError ''no user'')\<rparr>" example_cmd example_state]
    by simp
  have 4: "fst (setAccessTokenFromConfigFile (example_world\<lparr>Stat_IsNotExist := (\<lambda>path. True)\<rparr>)
          example_cmd example_state) = example_cmd"
    using th [of "example_world\<lparr>Stat_IsNotExist := (\<lambda>path. True)\<rparr>" example_cmd example_state]
    by (simp add: example_world_def)
  have 5: "fst (setAccessTokenFromConfigFile (example_world\<lparr>ReadFile := (\<lambda>path. Inl (GoError ''permission denied''))\<rparr>)
          example_cmd example_state) = example_cmd"
    using th [of "example_world\<lparr>ReadFile := (\<lambda>path. Inl (GoError ''permission denied''))\<rparr>" example_cmd example_state]
    by (simp add: example_world_def)
  have 6: "fst (setAccessTokenFromConfigFile (example_world\<lparr>yaml_Unmarshal := (\<lambda>text. Inl (GoError ''yaml: bad indentation''))\<rparr>)
          example_cmd example_state) = example_cmd"
    using th [of "example_world\<lparr>yaml_Unmarshal := (\<lambda>text. Inl (GoError ''yaml: bad indentation''))\<rparr>" example_cmd example_state]
    by (simp add: example_world_def)
  have 7: "fst (setAccessTokenFromConfigFile
          (example_world\<lparr>yaml_Unmarshal := (\<lambda>text. Inr \<lparr>CurrentContext = ''staging'',
              Contexts = [(''a'', \<lparr>Name = ''dev'', Token = ''t-dev''\<rparr>)]\<rparr>)\<rparr>)
          example_cmd example_state) = example_cmd"
    using th [of "example_world\<lparr>yaml_Unmarshal := (\<lambda>text. Inr \<lparr>CurrentContext = ''staging'',
              Contexts = [(''a'', \<lparr>Name = ''dev'', Token = ''t-dev''\<rparr>)]\<rparr>)\<rparr>" example_cmd example_state]
    by (simp add: example_world_def)
  show ?thesis using 1 2 3 4 5 6 7 by blast
qed

section \<open>The response interpreter\<close>

lemma fmt_d_examples: "fmt_d 400 = ''400''" "fmt_d 404 = ''404''" "fmt_d 500 = ''500''"
  by (simp_all add: fmt_d_def)

lemma getChartmuseumError_message:
  "json_Unmarshal w b = Inr m \<Longrightarrow> m \<noteq> [] \<Longrightarrow>
     getChartmuseumError w b code = GoError (fmt_d code @ '': '' @ m)"
  by (simp add: getChartmuseumError_def)

lemma getChartmuseumError_fallback:
  "json_Unmarshal w b = Inr [] \<or> (\<exists>e. json_Unmarshal w b = Inl e) \<Longrightarrow>
     getChartmuseumError w b code =
       GoError (fmt_d code @ '': could not properly parse response JSON: '' @ b)"
  by (auto simp: getChartmuseumError_def)

text \<open>
  Claim C2, as the code has it. For an upload response, the outcome is success exactly
  when the status is 201, and then \<open>Done.\<close> and a newline are printed. For any other
  status the body is read: when the read fails, the error of the read is returned as it
  is; when it gives the bytes \<open>b\<close>, the error is \<open><status>: <message>\<close> if \<open>b\<close>
  decodes with a non-empty \<open>error\<close> field, and
  \<open><status>: could not properly parse response JSON: <b>\<close> otherwise. Nothing is
  printed then. Status 400 with the body \<open>{"error":"version already exists"}\<close> gives
  \<open>400: version already exists\<close>, the decoder returning that field.
\<close>

theorem handlePushResponse_rule:
  \<open>(fst (handlePushResponse w resp s) = Return None \<longleftrightarrow> StatusCode resp = 201)
 \<and> (StatusCode resp = 201 \<longrightarrow>
      handlePushResponse w resp s = (Return None, s\<lparr>stdout := stdout s @ ''Done.'' @ [CHR 0x0A]\<rparr>))
 \<and> (\<forall>e. StatusCode resp \<noteq> 201 \<and> Body resp = Inl e \<longrightarrow>
      handlePushResponse w resp s = (Return (Some e), s))
 \<and> (\<forall>b m. StatusCode resp \<noteq> 201 \<and> Body resp = Inr b \<and> json_Unmarshal w b = Inr m \<and> m \<noteq> [] \<longrightarrow>
      handlePushResponse w resp s =
        (Return (Some (GoError (fmt_d (StatusCode resp) @ '': '' @ m))), s))
 \<and> (\<forall>b. StatusCode resp \<noteq> 201 \<and> Body resp = Inr b \<and>
        (json_Unmarshal w b = Inr [] \<or> (\<exists>e. json_Unmarshal w b = Inl e)) \<longrightarrow>
      handlePushResponse w resp s =
        (Return (Some (GoError (fmt_d (StatusCode resp)
           @ '': could not properly parse response JSON: '' @ b))), s))
 \<and> (StatusCode resp = 400 \<and> Body resp = Inr ''{"error":"version already exists"}'' \<and>
      json_Unmarshal w ''{"error":"version already exists"}'' = Inr ''version already exists'' \<longrightarrow>
      handlePushResponse w resp s = (Return (Some (GoError ''400: version already exists'')), s))\<close>
proof -
  have 1: "fst (handlePushResponse w resp s) = Return None \<longleftrightarrow> StatusCode resp = 201"
    by (simp add: handlePushResponse_def split: sum.splits)
  have 2: "StatusCode resp = 201 \<longrightarrow>
      handlePushResponse w resp s = (Return None, s\<lparr>stdout := stdout s @ ''Done.'' @ [CHR 0x0A]\<rparr>)"
    by (simp add: handlePushResponse_def print_def)
  have 3: "\<forall>e. StatusCode resp \<noteq> 201 \<and> Body resp = Inl e \<longrightarrow>
      handlePushResponse w resp s = (Return (Some e), s)"
    by (simp add: handlePushResponse_def)
  have 4: "\<forall>b m. StatusCode resp \<noteq> 201 \<and> Body resp = Inr b \<and> json_Unmarshal w b = Inr m \<and> m \<noteq> [] \<longrightarrow>
      handlePushResponse w resp s =
        (Return (Some (GoError (fmt_d (StatusCode resp) @ '': '' @ m))), s)"
    by (simp add: handlePushResponse_def getChartmuseumError_message)
  have 5: "\<forall>b. StatusCode resp \<noteq> 201 \<and> Body resp = Inr b \<and>
        (json_Unmarshal w b = Inr [] \<or> (\<exists>e. json_Unmarshal w b = Inl e)) \<longrightarrow>
      handlePushResponse w resp s =
        (Return (Some (GoError (fmt_d (StatusCode resp)
           @ '': could not properly parse response JSON: '' @ b))), s)"
    using getChartmuseumError_fallback [of w _ "StatusCode resp"]
    by (simp add: handlePushResponse_def)
  have 6: \<open>StatusCode resp = 400 \<and> Body resp = Inr ''{"error":"version already exists"}'' \<and>
      json_Unmarshal w ''{"error":"version already exists"}'' = Inr ''version already exists'' \<longrightarrow>
      handlePushResponse w resp s = (Return (Some (GoError ''400: version already exists'')), s)\<close>
    by (simp add: handlePushResponse_def getChartmuseumError_message fmt_d_examples)
  from 1 2 3 4 5 6 show ?thesis by blast
qed

text \<open>
  The claim as it was stated, any status but 201 gives an error built by the envelope
  rule, fails when the body cannot be read: status 500 with a read that ends in
  \<open>unexpected EOF\<close> returns that error, which does not start with \<open>500: \<close>.
\<close>

theorem handlePushResponse_read_error:
  "handlePushResponse example_world
     \<lparr>StatusCode = 500, Body = Inl (GoError ''unexpected EOF'')\<rparr> example_state
   = (Return (Some (GoError ''unexpected EOF'')), example_state)
   \<and> \<not> HasPrefix ''unexpected EOF'' (fmt_d 500 @ '': '')"
  by (simp add: handlePushResponse_def HasPrefix_def fmt_d_examples)

text \<open>The four cases on the example: 201, a decoded message, the fallback, a failed read.\<close>

theorem handlePushResponse_rule_witness:
  \<open>handlePushResponse example_world \<lparr>StatusCode = 201, Body = Inr []\<rparr> example_state
     = (Return None, example_state\<lparr>stdout := ''Done.'' @ [CHR 0x0A]\<rparr>)
 \<and> handlePushResponse example_world
      \<lparr>StatusCode = 400, Body = Inr ''{"error":"version already exists"}''\<rparr> example_state
     = (Return (Some (GoError ''400: version already exists'')), example_state)
 \<and> handlePushResponse example_world \<lparr>StatusCode = 500, Body = Inr ''oops''\<rparr> example_state
     = (Return (Some (GoError ''500: could not properly parse response JSON: oops'')), example_state)
 \<and> handlePushResponse example_world
      \<lparr>StatusCode = 500, Body = Inl (GoError ''unexpected EOF'')\<rparr> example_state
     = (Return (Some (GoError ''unexpected EOF'')), example_state)\<close>
proof -
  note th = handlePushResponse_rule [where w = example_world and s = example_state]
  have j: \<open>json_Unmarshal example_world ''{"error":"version already exists"}''
      = Inr ''version already exists''\<close>
    "json_Unmarshal example_world ''oops'' = Inl (GoError ''invalid character'')"
    by (simp_all add: example_world_def)
  have 1: "handlePushResponse example_world \<lparr>StatusCode = 201, Body = Inr []\<rparr> example_state
     = (Return None, example_state\<lparr>stdout := ''Done.'' @ [CHR 0x0A]\<rparr>)"
    using th [of "\<lparr>StatusCode = 201, Body = Inr []\<rparr>"] by (simp add: example_state_def)
  have 2: \<open>handlePushResponse example_world
      \<lparr>StatusCode = 400, Body = Inr ''{"error":"version already exists"}''\<rparr> example_state
     = (Return (Some (GoError ''400: version already exists'')), example_state)\<close>
    using th [of \<open>\<lparr>StatusCode = 400, Body = Inr ''{"error":"version already exists"}''\<rparr>\<close>]
    by (simp add: j fmt_d_examples)
  have 3: "handlePushResponse example_world \<lparr>StatusCode = 500, Body = Inr ''oops''\<rparr> example_state
     = (Return (Some (GoError ''500: could not properly parse response JSON: oops'')), example_state)"
    using th [of "\<lparr>StatusCode = 500, Body = Inr ''oops''\<rparr>"]
    by (simp add: j fmt_d_examples)
  have 4: "handlePushResponse example_world
      \<lparr>StatusCode = 500, Body = Inl (GoError ''unexpected EOF'')\<rparr> example_state
     = (Return (Some (GoError ''unexpected EOF'')), example_state)"
    using th [of "\<lparr>StatusCode = 500, Body = Inl (GoError ''unexpected EOF'')\<rparr>"] by simp
  from 1 2 3 4 show ?thesis by blast
qed


text \<open>
  Claim C3, as the code has it. For a download response the body is read first: when the
  read fails, its error is returned whatever the status is. When it gives the bytes
  \<open>b\<close>: status 200 is success and exactly \<open>b\<close> is appended to the output; any other
  status gives the error of the envelope rule and prints nothing. Success happens at
  status 200 only. Status 404 with the body \<open>oops\<close>, which the decoder rejects, gives
  \<open>404: could not properly parse response JSON: oops\<close>.
\<close>

theorem handleDownloadResponse_rule:
  "(\<forall>e. Body resp = Inl e \<longrightarrow> handleDownloadResponse w resp s = (Return (Some e), s))
 \<and> (\<forall>b. Body resp = Inr b \<and> StatusCode resp = 200 \<longrightarrow>
      handleDownloadResponse w resp s = (Return None, s\<lparr>stdout := stdout s @ b\<rparr>))
 \<and> (fst (handleDownloadResponse w resp s) = Return None \<longrightarrow> StatusCode resp = 200)
 \<and> (\<forall>b m. Body resp = Inr b \<and> StatusCode resp \<noteq> 200 \<and> json_Unmarshal w b = Inr m \<and> m \<noteq> [] \<longrightarrow>
      handleDownloadResponse w resp s =
        (Return (Some (GoError (fmt_d (StatusCode resp) @ '': '' @ m))), s))
 \<and> (\<forall>b. Body resp = Inr b \<and> StatusCode resp \<noteq> 200 \<and>
        (json_Unmarshal w b = Inr [] \<or> (\<exists>e. json_Unmarshal w b = Inl e)) \<longrightarrow>
      handleDownloadResponse w resp s =
        (Return (Some (GoError (fmt_d (StatusCode resp)
           @ '': could not properly parse response JSON: '' @ b))), s))
 \<and> (StatusCode resp = 404 \<and> Body resp = Inr ''oops'' \<and> (\<exists>e. json_Unmarshal w ''oops'' = Inl e) \<longrightarrow>
      handleDownloadResponse w resp s =
        (Return (Some (GoError ''404: could not properly parse response JSON: oops'')), s))"
proof -
  have 1: "\<forall>e. Body resp = Inl e \<longrightarrow> handleDownloadResponse w resp s = (Return (Some e), s)"
    by (simp add: handleDownloadResponse_def)
  have 2: "\<forall>b. Body resp = Inr b \<and> StatusCode resp = 200 \<longrightarrow>
      handleDownloadResponse w resp s = (Return None, s\<lparr>stdout := stdout s @ b\<rparr>)"
    by (simp add: handleDownloadResponse_def print_def)
  have 3: "fst (handleDownloadResponse w resp s) = Return None \<longrightarrow> StatusCode resp = 200"
    by (simp add: handleDownloadResponse_def split: sum.splits)
  have 4: "\<forall>b m. Body resp = Inr b \<and> StatusCode resp \<noteq> 200 \<and> json_Unmarshal w b = Inr m \<and> m \<noteq> [] \<longrightarrow>
      handleDownloadResponse w resp s =
        (Return (Some (GoError (fmt_d (StatusCode resp) @ '': '' @ m))), s)"
    by (simp add: handleDownloadResponse_def getChartmuseumError_message)
  have 5: "\<forall>b. Body resp = Inr b \<and> StatusCode resp \<noteq> 200 \<and>
        (json_Unmarshal w b = Inr [] \<or> (\<exists>e. json_Unmarshal w b = Inl e)) \<longrightarrow>
      handleDownloadResponse w resp s =
        (Return (Some (GoError (fmt_d (StatusCode resp)
           @ '': could not properly parse response JSON: '' @ b))), s)"
    using getChartmuseumError_fallback [of w _ "StatusCode resp"]
    by (simp add: handleDownloadResponse_def)
  have 6: "StatusCode resp = 404 \<and> Body resp = Inr ''oops'' \<and> (\<exists>e. json_Unmarshal w ''oops'' = Inl e) \<longrightarrow>
      handleDownloadResponse w resp s =
        (Return (Some (GoError ''404: could not properly parse response JSON: oops'')), s)"
    using getChartmuseumError_fallback [of w "''oops''" 404]
    by (auto simp: handleDownloadResponse_def fmt_d_examples)
  from 1 2 3 4 5 6 show ?thesis by blast
qed

text \<open>
  The claim as it was stated, status 200 is success, fails when the body cannot be read:
  status 200 with a read that ends in \<open>unexpected EOF\<close> returns that error and prints
  nothing.
\<close>

theorem handleDownloadResponse_read_error:
  "handleDownloadResponse example_world
     \<lparr>StatusCode = 200, Body = Inl (GoError ''unexpected EOF'')\<rparr> example_state
   = (Return (Some (GoError ''unexpected EOF'')), example_state)"
  by (simp add: handleDownloadResponse_def)

text \<open>The example: the body \<open>abc\<close> printed, the fallback at 404, a failed read at 200.\<close>

theorem handleDownloadResponse_rule_witness:
  "handleDownloadResponse example_world \<lparr>StatusCode = 200, Body = Inr ''abc''\<rparr> example_state
     = (Return None, example_state\<lparr>stdout := ''abc''\<rparr>)
 \<and> handleDownloadResponse example_world \<lparr>StatusCode = 404, Body = Inr ''oops''\<rparr> example_state
     = (Return (Some (GoError ''404: could not properly parse response JSON: oops'')), example_state)
 \<and> handleDownloadResponse example_world
      \<lparr>StatusCode = 200, Body = Inl (GoError ''unexpected EOF'')\<rparr> example_state
     = (Return (Some (GoError ''unexpected EOF'')), example_state)"
proof -
  note th = handleDownloadResponse_rule [where w = example_world and s = example_state]
  have j: "json_Unmarshal example_world ''oops'' = Inl (GoError ''invalid character'')"
    by (simp add: example_world_def)
  have 1: "handleDownloadResponse example_world \<lparr>StatusCode = 200, Body = Inr ''abc''\<rparr> example_state
     = (Return None, example_state\<lparr>stdout := ''abc''\<rparr>)"
    using th [of "\<lparr>StatusCode = 200, Body = Inr ''abc''\<rparr>"] by (simp add: example_state_def)
  have 2: "handleDownloadResponse example_world \<lparr>StatusCode = 404, Body = Inr ''oops''\<rparr> example_state
     = (Return (Some (GoError ''404: could not properly parse response JSON: oops'')), example_state)"
    using th [of "\<lparr>StatusCode = 404, Body = Inr ''oops''\<rparr>"] by (simp add: j fmt_d_examples)
  have 3: "handleDownloadResponse example_world
      \<lparr>StatusCode = 200, Body = Inl (GoError ''unexpected EOF'')\<rparr> example_state
     = (Return (Some (GoError ''unexpected EOF'')), example_state)"
    using th [of "\<lparr>StatusCode = 200, Body = Inl (GoError ''unexpected EOF'')\<rparr>"] by simp
  from 1 2 3 show ?thesis by blast
qed

section \<open>download: the path of the file\<close>

lemma Split_not_Nil [simp]: "Split s c \<noteq> []"
  by (induction s) (auto split: list.splits)

lemma Split_append_sep: "Split (a @ c # b) c = Split a c @ Split b c"
  by (induction a) (auto split: list.splits)

lemma Split_no_sep: "c \<notin> set s \<Longrightarrow> Split s c = [s]"
  by (induction s) (auto split: list.splits)

lemma Join_Cons: "Join (x # xs) sep = (if xs = [] then x else x @ sep @ Join xs sep)"
  by (cases xs) auto

lemma Join_snoc: "xs \<noteq> [] \<Longrightarrow> Join (xs @ [y]) sep = Join xs sep @ sep @ y"
  by (induction xs) (auto simp: Join_Cons)

lemma Join_Split: "Join (Split s c) [c] = s"
proof (induction s)
  case Nil
  show ?case by simp
next
  case (Cons x xs)
  obtain y ys where r: "Split xs c = y # ys"
    by (cases "Split xs c") auto
  with Cons show ?case by (auto simp: Join_Cons split: if_splits list.splits)
qed

lemma download_parts_charts:
  assumes "CHR ''/'' \<notin> set name"
  shows "download_parts (pre @ ''/charts/'' @ name) = Some (pre, ''charts/'' @ name)"
proof -
  have "pre @ ''/charts/'' @ name = (pre @ CHR ''/'' # ''charts'') @ CHR ''/'' # name"
    by simp
  then have s: "Split (pre @ ''/charts/'' @ name) CHR ''/'' = Split pre CHR ''/'' @ [''charts'', name]"
    using assms by (simp only: Split_append_sep) (simp add: Split_no_sep)
  have j: "Join (Split pre CHR ''/'') ''/'' = pre"
    by (rule Join_Split)
  show ?thesis
    unfolding download_parts_def s
    by (simp add: Let_def nth_append j)
qed

lemma download_parts_dir:
  assumes "CHR ''/'' \<notin> set name" "CHR ''/'' \<notin> set dir" "dir \<noteq> ''charts''"
  shows "download_parts (pre @ ''/'' @ dir @ ''/'' @ name) = Some (pre @ ''/'' @ dir, name)"
proof -
  have "pre @ ''/'' @ dir @ ''/'' @ name = (pre @ CHR ''/'' # dir) @ CHR ''/'' # name"
    by simp
  then have s: "Split (pre @ ''/'' @ dir @ ''/'' @ name) CHR ''/'' = Split pre CHR ''/'' @ [dir, name]"
    using assms by (simp only: Split_append_sep) (simp add: Split_no_sep)
  have "Join (Split (pre @ CHR ''/'' # dir) CHR ''/'') ''/'' = pre @ CHR ''/'' # dir"
    by (rule Join_Split)
  then have j: "Join (Split pre CHR ''/'' @ [dir]) ''/'' = pre @ ''/'' @ dir"
    using assms by (simp add: Split_append_sep Split_no_sep)
  show ?thesis
    unfolding download_parts_def s
    using assms(3) by (simp add: Let_def nth_append j)
qed


lemma download_calls:
  assumes "url_Parse w fileURL = Inr u" "download_parts (Path u) = Some (base, filePath)"
    and "opts = client_options p
           (url_String w (u\<lparr>Path := base, Scheme := (if useHTTP p then ''http'' else ''https'')\<rparr>))
           (username p) (password p)"
    and "NewClient w opts = None"
  shows "calls (snd (download w p fileURL s)) =
           calls s @ [Call_NewClient opts, Call_DownloadFile opts filePath]"
proof -
  have "calls (snd (handleDownloadResponse w r s')) = calls s'" for r s'
    by (simp add: handleDownloadResponse_def print_def split: sum.splits)
  with assms show ?thesis
    by (simp add: download_def Let_def log_call_def split: prod.splits option.splits)
qed

text \<open>
  Claim C4. When the path of the pseudo-URL ends in \<open>/charts/<name>\<close>, the file path
  is \<open>charts/<name>\<close> and the path left in the URL has lost its last two segments
  \<open>charts/<name>\<close>. When it ends in \<open>/<dir>/<name>\<close> with \<open><dir>\<close> other than
  \<open>charts\<close>, the file path is \<open><name>\<close> and the path left in the URL has lost this
  last segment only. (\<open><name>\<close> and \<open><dir>\<close> are segments: they hold no \<open>/\<close>.)
  \<open>download\<close> gives the URL with the path left to \<open>cm.NewClient\<close> and the file path
  to \<open>DownloadFile\<close>.
\<close>

theorem download_file_path:
  "(CHR ''/'' \<notin> set name \<longrightarrow>
      download_parts (pre @ ''/charts/'' @ name) = Some (pre, ''charts/'' @ name))
 \<and> (CHR ''/'' \<notin> set name \<and> CHR ''/'' \<notin> set dir \<and> dir \<noteq> ''charts'' \<longrightarrow>
      download_parts (pre @ ''/'' @ dir @ ''/'' @ name) = Some (pre @ ''/'' @ dir, name))
 \<and> (url_Parse w fileURL = Inr u \<and> download_parts (Path u) = Some (base, filePath) \<and>
      opts = client_options p
           (url_String w (u\<lparr>Path := base, Scheme := (if useHTTP p then ''http'' else ''https'')\<rparr>))
           (username p) (password p) \<and>
      NewClient w opts = None \<longrightarrow>
      calls (snd (download w p fileURL s)) =
        calls s @ [Call_NewClient opts, Call_DownloadFile opts filePath])"
  using download_parts_charts [of name pre] download_parts_dir [of name dir pre]
    download_calls [of w fileURL u base filePath opts p s]
  by blast

text \<open>
  The two paths of the specification, and the example run on
  \<open>cm://repo.example.com/library/charts/foo-1.0.0.tgz\<close>.
\<close>

theorem download_file_path_witness:
  "download_parts ''/library/charts/foo-1.0.0.tgz'' = Some (''/library'', ''charts/foo-1.0.0.tgz'')
 \<and> download_parts ''/mychart/foo-1.0.0.tgz'' = Some (''/mychart'', ''foo-1.0.0.tgz'')
 \<and> calls (snd (download example_world example_cmd
        ''cm://repo.example.com/library/charts/foo-1.0.0.tgz'' example_state)) =
     [Call_NewClient (client_options example_cmd ''https://repo.example.com/library'' [] ''secret''),
      Call_DownloadFile (client_options example_cmd ''https://repo.example.com/library'' [] ''secret'')
        ''charts/foo-1.0.0.tgz'']"
proof -
  define u where "u = \<lparr>Scheme = ''cm'', Opaque = [], User = [], Host = ''repo.example.com'',
      Path = ''/library/charts/foo-1.0.0.tgz'', RawPath = [], RawQuery = [], Fragment = []\<rparr>"
  note th = download_file_path [where w = example_world and u = u and p = example_cmd
        and fileURL = "''cm://repo.example.com/library/charts/foo-1.0.0.tgz''"
        and base = "''/library''" and filePath = "''charts/foo-1.0.0.tgz''"
        and opts = "client_options example_cmd ''https://repo.example.com/library'' [] ''secret''"
        and s = example_state and name = "''foo-1.0.0.tgz''"]
  have 1: "download_parts ''/library/charts/foo-1.0.0.tgz'' = Some (''/library'', ''charts/foo-1.0.0.tgz'')"
    using th [where pre = "''/library''" and dir = "[]"] by simp
  have 2: "download_parts ''/mychart/foo-1.0.0.tgz'' = Some (''/mychart'', ''foo-1.0.0.tgz'')"
    using th [where pre = "[]" and dir = "''mychart''"] by simp
  have p: "url_Parse example_world ''cm://repo.example.com/library/charts/foo-1.0.0.tgz'' = Inr u"
    by (simp add: example_world_def u_def)
  have o: "client_options example_cmd ''https://repo.example.com/library'' [] ''secret'' =
      client_options example_cmd
        (url_String example_world (u\<lparr>Path := ''/library'',
           Scheme := (if useHTTP example_cmd then ''http'' else ''https'')\<rparr>))
        (username example_cmd) (password example_cmd)"
    by (simp add: example_world_def example_cmd_def u_def)
  have n: "NewClient example_world opts = None" for opts
    by (simp add: example_world_def)
  have pu: "Path u = ''/library/charts/foo-1.0.0.tgz''"
    by (simp add: u_def)
  have 3: "calls (snd (download example_world example_cmd
        ''cm://repo.example.com/library/charts/foo-1.0.0.tgz'' example_state)) =
     [Call_NewClient (client_options example_cmd ''https://repo.example.com/library'' [] ''secret''),
      Call_DownloadFile (client_options example_cmd ''https://repo.example.com/library'' [] ''secret'')
        ''charts/foo-1.0.0.tgz'']"
    using th [where pre = "''/library''" and dir = "[]"] p o n 1 pu
    by (simp add: example_state_def)
  from 1 2 3 show ?thesis by blast
qed


lemma Join_butlast_last:
  assumes "2 \<le> length xs"
  shows "Join (butlast xs) sep @ sep @ last xs = Join xs sep"
proof -
  have ne: "butlast xs \<noteq> []" using assms by (cases xs) (auto split: if_splits)
  have "xs = butlast xs @ [last xs]" using assms by (cases xs) auto
  then have "Join xs sep = Join (butlast xs @ [last xs]) sep" by simp
  also have "\<dots> = Join (butlast xs) sep @ sep @ last xs" using ne by (rule Join_snoc)
  finally show ?thesis by simp
qed

lemma download_parts_roundtrip_parts:
  assumes n: "2 \<le> length (Split path CHR ''/'')"
    and c: "Split path CHR ''/'' ! (length (Split path CHR ''/'') - 2) = ''charts''
              \<Longrightarrow> 3 \<le> length (Split path CHR ''/'')"
  shows "\<exists>base filePath. download_parts path = Some (base, filePath) \<and>
           base @ ''/'' @ filePath = path"
proof -
  define parts where "parts = Split path CHR ''/''"
  have len: "2 \<le> length parts" using n by (simp add: parts_def)
  have whole: "Join parts ''/'' = path" unfolding parts_def by (rule Join_Split)
  have ne: "parts \<noteq> []" using len by auto
  have lastp: "parts ! (length parts - 1) = last parts"
    using ne by (simp add: last_conv_nth)
  have bl: "take (length parts - 1) parts = butlast parts"
    by (simp add: butlast_conv_take)
  have one: "Join (butlast parts) ''/'' @ ''/'' @ last parts = path"
    using Join_butlast_last [OF len, of "''/''"] whole by simp
  show ?thesis
  proof (cases "parts ! (length parts - 2) = ''charts''")
    case False
    then have "download_parts path = Some (Join (butlast parts) ''/'', last parts)"
      using len lastp bl unfolding download_parts_def parts_def [symmetric]
      by (simp add: Let_def)
    with one show ?thesis by simp
  next
    case True
    then have len3: "3 \<le> length parts" using c by (simp add: parts_def)
    have bb: "take (length parts - Suc (Suc 0)) parts = butlast (butlast parts)"
      by (simp add: butlast_conv_take)
    have l2: "2 \<le> length (butlast parts)" using len3 by simp
    have "length (butlast parts) \<noteq> 0" using l2 by linarith
    then have "butlast parts \<noteq> []" by (simp only: length_0_conv not_False_eq_True)
    then have "last (butlast parts) = butlast parts ! (length (butlast parts) - 1)"
      by (rule last_conv_nth)
    also have "\<dots> = parts ! (length parts - 2)"
      using len3 by (simp add: nth_butlast numeral_2_eq_2)
    finally have lb: "last (butlast parts) = ''charts''" using True by simp
    have two: "Join (butlast (butlast parts)) ''/'' @ ''/'' @ ''charts'' = Join (butlast parts) ''/''"
      using Join_butlast_last [OF l2, of "''/''"] lb by simp
    have "download_parts path =
        Some (Join (butlast (butlast parts)) ''/'', ''charts/'' @ last parts)"
      using True len lastp bb unfolding download_parts_def parts_def [symmetric]
      by (simp add: Let_def)
    moreover have "Join (butlast (butlast parts)) ''/'' @ ''/'' @ ''charts/'' @ last parts = path"
      using one two [symmetric] by simp
    ultimately show ?thesis by simp
  qed
qed

text \<open>
  Claim C10. The path of a download pseudo-URL that holds a \<open>/\<close> is cut into two parts
  that give it back: the path left in the URL, a \<open>/\<close>, and the file path are the
  original path, with or without the segment \<open>charts\<close>. The path of a URL with an
  authority, as \<open>cm://host/...\<close> is, is empty or starts with \<open>/\<close>: this is how
  \<open>url.Parse\<close> cuts the authority from the path, and it is the second hypothesis.
\<close>

theorem download_parts_roundtrip:
  assumes "CHR ''/'' \<in> set path" and "HasPrefix path ''/''"
  shows "\<exists>base filePath. download_parts path = Some (base, filePath) \<and>
           base @ ''/'' @ filePath = path"
proof -
  obtain rest where p: "path = CHR ''/'' # rest"
    using assms(2) by (cases path) (auto simp: HasPrefix_def)
  have s: "Split path CHR ''/'' = [] # Split rest CHR ''/''"
    by (simp add: p)
  have "Suc 0 \<le> length (Split rest CHR ''/'')" by (simp add: Suc_le_eq)
  then have n: "2 \<le> length (Split path CHR ''/'')"
    unfolding s by simp
  have c: "3 \<le> length (Split path CHR ''/'')"
    if h: "Split path CHR ''/'' ! (length (Split path CHR ''/'') - 2) = ''charts''"
  proof (rule ccontr)
    assume "\<not> 3 \<le> length (Split path CHR ''/'')"
    with n have l: "length (Split path CHR ''/'') = 2" by linarith
    have z: "Split path CHR ''/'' ! 0 = []" unfolding s by simp
    from h have "Split path CHR ''/'' ! 0 = ''charts''"
      by (simp only: l diff_self_eq_0)
    with z show False by simp
  qed
  from n c show ?thesis by (rule download_parts_roundtrip_parts)
qed

text \<open>Both cases on the paths of the specification.\<close>

theorem download_parts_roundtrip_witness:
  "download_parts ''/library/charts/foo-1.0.0.tgz'' = Some (''/library'', ''charts/foo-1.0.0.tgz'')
 \<and> ''/library'' @ ''/'' @ ''charts/foo-1.0.0.tgz'' = ''/library/charts/foo-1.0.0.tgz''
 \<and> (\<exists>base filePath. download_parts ''/mychart/foo-1.0.0.tgz'' = Some (base, filePath) \<and>
       base @ ''/'' @ filePath = ''/mychart/foo-1.0.0.tgz'')"
proof -
  have 1: "download_parts ''/library/charts/foo-1.0.0.tgz'' = Some (''/library'', ''charts/foo-1.0.0.tgz'')"
    using download_parts_charts [of "''foo-1.0.0.tgz''" "''/library''"] by simp
  have a: "CHR ''/'' \<in> set ''/mychart/foo-1.0.0.tgz''" by simp
  have b: "HasPrefix ''/mychart/foo-1.0.0.tgz'' ''/''" by (simp add: HasPrefix_def)
  have 2: "\<exists>base filePath. download_parts ''/mychart/foo-1.0.0.tgz'' = Some (base, filePath) \<and>
       base @ ''/'' @ filePath = ''/mychart/foo-1.0.0.tgz''"
    using download_parts_roundtrip [OF a b] .
  have 0: "''/library'' @ ''/'' @ ''charts/foo-1.0.0.tgz'' = ''/library/charts/foo-1.0.0.tgz''"
    by simp
  from 1 0 2 show ?thesis by (intro conjI)
qed

text \<open>
  The leading \<open>/\<close> matters only for a path of the two segments \<open>charts\<close> and a name,
  which no URL with an authority has: there nothing is left of the path, and the parts
  give \<open>/charts/foo-1.0.0.tgz\<close>.
\<close>

lemma download_parts_relative_charts:
  "download_parts ''charts/foo-1.0.0.tgz'' = Some ([], ''charts/foo-1.0.0.tgz'')"
  by (simp add: download_parts_def Let_def)

section \<open>push: the calls, the URL, the temporary directory\<close>

subsection \<open>Replacing the first occurrence\<close>

lemma HasPrefix_append [simp]: "HasPrefix (old @ post) old"
  by (simp add: HasPrefix_def)

lemma HasPrefix_iff: "HasPrefix s old \<longleftrightarrow> (\<exists>q. s = old @ q)"
  by (metis HasPrefix_def append_eq_conv_conj)

lemma Replace1_prefix:
  "HasPrefix s old \<Longrightarrow> Replace1 s old new = new @ drop (length old) s"
  by (cases s) (auto simp: HasPrefix_def)

lemma Replace1_leftmost:
  assumes "\<forall>p q. length p < length pre \<longrightarrow> pre @ old @ post \<noteq> p @ old @ q"
  shows "Replace1 (pre @ old @ post) old new = pre @ new @ post"
  using assms
proof (induction pre)
  case Nil
  show ?case
    using Replace1_prefix [of "old @ post" old new] by simp
next
  case (Cons x pre)
  have "\<not> HasPrefix ((x # pre) @ old @ post) old"
  proof
    assume "HasPrefix ((x # pre) @ old @ post) old"
    then obtain q where "(x # pre) @ old @ post = [] @ old @ q"
      by (auto simp: HasPrefix_iff)
    with Cons.prems show False by (metis length_greater_0_conv list.distinct(1) list.size(3))
  qed
  moreover have "\<forall>p q. length p < length pre \<longrightarrow> pre @ old @ post \<noteq> p @ old @ q"
  proof (intro allI impI notI)
    fix p q
    assume "length p < length pre" "pre @ old @ post = p @ old @ q"
    then have "length (x # p) < length (x # pre)" "(x # pre) @ old @ post = (x # p) @ old @ q"
      by simp_all
    with Cons.prems show False by blast
  qed
  ultimately show ?case
    using Cons.IH by simp
qed

lemma Replace1_absent:
  "\<forall>p q. s \<noteq> p @ old @ q \<Longrightarrow> Replace1 s old new = s"
proof (induction s)
  case Nil
  then show ?case by (metis Replace1.simps(1) append_Nil)
next
  case (Cons x xs)
  have "\<not> HasPrefix (x # xs) old"
    using Cons.prems by (metis HasPrefix_iff append_Nil)
  moreover have "\<forall>p q. xs \<noteq> p @ old @ q"
    using Cons.prems by (metis append_Cons)
  ultimately show ?case using Cons.IH by simp
qed

lemma push_url_leftmost:
  assumes "repoURL = pre @ ''cm://'' @ post"
    and "\<forall>p q. length p < length pre \<longrightarrow> repoURL \<noteq> p @ ''cm://'' @ q"
  shows "push_url p repoURL = pre @ (if useHTTP p then ''http://'' else ''https://'') @ post"
  using Replace1_leftmost [of pre "''cm://''" post] assms
  by (simp add: push_url_def)


subsection \<open>The calls of push\<close>

lemma handlePushResponse_state:
  "calls (snd (handlePushResponse w r s)) = calls s"
  "files (snd (handlePushResponse w r s)) = files s"
  by (simp_all add: handlePushResponse_def print_def split: sum.splits)

lemma handleDownloadResponse_state:
  "calls (snd (handleDownloadResponse w r s)) = calls s"
  "files (snd (handleDownloadResponse w r s)) = files s"
  by (simp_all add: handleDownloadResponse_def print_def split: sum.splits)

lemma push_upload_calls:
  assumes "c \<in> set (calls (snd (push_upload w p chart opts tmp s)))"
  shows "c \<in> set (calls s) \<or> c = Call_CreateChartPackage tmp \<or>
         (\<exists>path. c = Call_UploadChartPackage opts path (forceUpload p))"
  using assms
  by (auto simp: push_upload_def Let_def log_call_def print_def handlePushResponse_state
      split: prod.splits option.splits)

lemma push_tmp_calls:
  assumes "c \<in> set (calls (snd (push_tmp w p chart opts s)))"
  shows "c \<in> set (calls s) \<or> c = Call_TempDir (TempDir w (files s)) \<or>
         (\<exists>tmp. c = Call_CreateChartPackage tmp) \<or>
         (\<exists>path. c = Call_UploadChartPackage opts path (forceUpload p)) \<or>
         (\<exists>tmp. c = Call_RemoveAll tmp)"
proof (cases "TempDir w (files s)")
  case (Inl e)
  with assms show ?thesis by (auto simp: push_tmp_def log_call_def)
next
  case (Inr tmp)
  obtain res s2 where u: "push_upload w p chart opts tmp
      (log_call (Call_TempDir (Inr tmp)) (s\<lparr>files := insert tmp (files s)\<rparr>)) = (res, s2)"
    by (cases "push_upload w p chart opts tmp
      (log_call (Call_TempDir (Inr tmp)) (s\<lparr>files := insert tmp (files s)\<rparr>))") auto
  from assms Inr u have "c \<in> set (calls s2) \<or> c = Call_RemoveAll tmp"
    by (auto simp: push_tmp_def Let_def log_call_def)
  moreover have "c \<in> set (calls s2) \<Longrightarrow>
      c \<in> set (calls s) \<or> c = Call_TempDir (Inr tmp) \<or> c = Call_CreateChartPackage tmp \<or>
      (\<exists>path. c = Call_UploadChartPackage opts path (forceUpload p))"
    using push_upload_calls [of c w p chart opts tmp
        "log_call (Call_TempDir (Inr tmp)) (s\<lparr>files := insert tmp (files s)\<rparr>)"] u
    by (auto simp: log_call_def)
  ultimately show ?thesis using Inr by auto
qed

lemma push_repo_state:
  assumes "push_repo w p s = (r, s1)"
  shows "files s1 = files s" "stdout s1 = stdout s"
    "calls s1 = calls s @ [Call_TempRepoFromURL (repoName p)] \<or>
     calls s1 = calls s @ [Call_GetRepoByName (repoName p)]"
  using assms
  by (auto simp: push_repo_def Let_def log_call_def split: prod.splits option.splits if_splits)

lemma push_repo_cmd:
  assumes "push_repo w p s = (Inr (repo, p1), s1)"
  shows "p1 = p\<lparr>repoName := repoName p1\<rparr>"
  using assms
  by (auto simp: push_repo_def Let_def split: prod.splits option.splits if_splits)

lemma push_calls:
  assumes "c \<in> set (calls (snd (push w p s)))"
  shows "c \<in> set (calls s) \<or> is_push_call c \<or> (\<exists>opts. c = Call_NewClient opts)"
proof (cases "push_repo w p s")
  case (Pair r s1)
  from push_repo_state(3) [OF Pair]
  have s1: "c \<in> set (calls s1) \<Longrightarrow> c \<in> set (calls s) \<or> is_push_call c" for c
    by auto
  show ?thesis
  proof (cases r)
    case (Inl res)
    with Pair assms s1 show ?thesis by (auto simp: push_def)
  next
    case (Inr rp)
    obtain repo p1 where rp: "rp = (repo, p1)" by (cases rp) auto
    have tmp: "c \<in> set (calls (snd (push_tmp w p1 chart opts s3))) \<Longrightarrow>
        c \<in> set (calls s3) \<or> is_push_call c" for chart opts s3
      using push_tmp_calls [of c w p1 chart opts s3] by auto
    from assms Pair Inr rp show ?thesis
      by (auto simp: push_def Let_def log_call_def
          split: prod.splits option.splits if_splits dest!: tmp s1)
  qed
qed


lemma push_NewClient_url:
  assumes "Call_NewClient opts \<in> set (calls (snd (push w p s)))"
    and "Call_NewClient opts \<notin> set (calls s)"
  shows "\<exists>r err. (if matches_https_URL (repoName p) then TempRepoFromURL w (repoName p)
                   else GetRepoByName w (repoName p)) = (Some r, err) \<and>
           cm_URL opts = push_url p (URL r)"
proof (cases "push_repo w p s")
  case (Pair res s1)
  from push_repo_state(3) [OF Pair] assms(2)
  have s1: "Call_NewClient opts \<notin> set (calls s1)"
    by auto
  show ?thesis
  proof (cases res)
    case (Inl out)
    with Pair assms(1) s1 show ?thesis by (simp add: push_def)
  next
    case (Inr rp)
    obtain repo p1 where rp: "rp = (repo, p1)" by (cases rp) auto
    have p1: "useHTTP p1 = useHTTP p"
      using push_repo_cmd [of w p s repo p1 s1] Pair Inr rp
      by (metis pushCmd.select_convs(10) pushCmd.surjective pushCmd.update_convs(3))
    have loc: "(if matches_https_URL (repoName p) then TempRepoFromURL w (repoName p)
                   else GetRepoByName w (repoName p)) = (repo, None)"
      using Pair Inr rp
      by (auto simp: push_repo_def Let_def split: prod.splits option.splits if_splits)
    have tmp: "Call_NewClient opts \<in> set (calls (snd (push_tmp w p1 chart o' s3))) \<Longrightarrow>
        Call_NewClient opts \<in> set (calls s3)" for chart o' s3
      using push_tmp_calls [of "Call_NewClient opts" w p1 chart o' s3] by auto
    from assms(1) Pair Inr rp s1 loc p1 show ?thesis
      by (auto simp: push_def Let_def log_call_def client_options_def push_url_def
          split: prod.splits option.splits if_splits dest!: tmp)
  qed
qed


text \<open>The definitions that an evaluation of \<open>push\<close> unfolds.\<close>

lemmas push_unfold = push_def push_repo_def push_tmp_def push_upload_def push_url_def
  handlePushResponse_def getChartmuseumError_def client_options_def matches_https_URL_def
  HasPrefix_def log_call_def print_def Let_def



subsection \<open>The URL of the push\<close>

lemma push_upload_calls_prefix:
  "\<exists>cs. calls (snd (push_upload w p chart opts tmp s)) = calls s @ cs"
  by (simp add: push_upload_def Let_def log_call_def print_def handlePushResponse_state
      split: prod.splits option.splits)

lemma push_tmp_calls_prefix:
  "\<exists>cs. calls (snd (push_tmp w p chart opts s)) = calls s @ cs"
proof (cases "TempDir w (files s)")
  case (Inl e)
  then show ?thesis by (simp add: push_tmp_def log_call_def)
next
  case (Inr tmp)
  let ?s1 = "log_call (Call_TempDir (Inr tmp)) (s\<lparr>files := insert tmp (files s)\<rparr>)"
  obtain cs where "calls (snd (push_upload w p chart opts tmp ?s1)) = calls ?s1 @ cs"
    using push_upload_calls_prefix by blast
  with Inr show ?thesis
    by (auto simp: push_tmp_def Let_def log_call_def split: prod.splits)
qed

lemma push_uses_url:
  assumes loc: "(if matches_https_URL (repoName p) then TempRepoFromURL w (repoName p)
                 else GetRepoByName w (repoName p)) = (Some r, None)"
    and ch: "GetChartByName w (chartName p) = (chart, None)"
    and ver: "chartVersion p = [] \<or> chart \<noteq> None"
  shows "\<exists>rest. calls (snd (push w p s)) =
           calls s @
           [if matches_https_URL (repoName p) then Call_TempRepoFromURL (repoName p)
            else Call_GetRepoByName (repoName p),
            Call_GetChartByName (chartName p),
            Call_NewClient (client_options p (push_url p (URL r))
              (if username p \<noteq> [] then username p else Username r)
              (if password p \<noteq> [] then password p else Password r))] @ rest"
proof -
  define p1 where "p1 = (if matches_https_URL (repoName p) then p\<lparr>repoName := URL r\<rparr> else p)"
  define c0 where "c0 = (if matches_https_URL (repoName p) then Call_TempRepoFromURL (repoName p)
            else Call_GetRepoByName (repoName p))"
  have pr: "push_repo w p s = (Inr (Some r, p1), log_call c0 s)"
    using loc by (auto simp: push_repo_def Let_def p1_def c0_def split: if_splits)
  have f: "chartName p1 = chartName p" "chartVersion p1 = chartVersion p"
    "username p1 = username p" "password p1 = password p"
    "client_options p1 = client_options p" "push_url p1 = push_url p"
    by (auto simp: p1_def client_options_def push_url_def fun_eq_iff)
  define opts where "opts = client_options p (push_url p (URL r))
              (if username p \<noteq> [] then username p else Username r)
              (if password p \<noteq> [] then password p else Password r)"
  define s3 where "s3 = log_call (Call_NewClient opts)
      (log_call (Call_GetChartByName (chartName p)) (log_call c0 s))"
  have s3: "calls s3 = calls s @ [c0, Call_GetChartByName (chartName p), Call_NewClient opts]"
    by (simp add: s3_def log_call_def)
  have "push w p s = (case NewClient w opts of
            Some e \<Rightarrow> (Return (Some e), s3)
          | None \<Rightarrow> push_tmp w p1 (if chartVersion p \<noteq> []
                                     then map_option (SetVersion w (chartVersion p)) chart
                                     else chart) opts s3)"
    using ch ver by (auto simp: push_def pr f Let_def opts_def s3_def split: option.splits)
  moreover obtain cs where "calls (snd (push_tmp w p1 (if chartVersion p \<noteq> []
                                     then map_option (SetVersion w (chartVersion p)) chart
                                     else chart) opts s3)) = calls s3 @ cs"
    using push_tmp_calls_prefix by blast
  ultimately have "\<exists>rest. calls (snd (push w p s)) = calls s3 @ rest"
    by (cases "NewClient w opts") auto
  then show ?thesis
    unfolding s3 c0_def opts_def by simp
qed


text \<open>
  Claim C5. When the URL of the repository holds \<open>cm://\<close>, that is, it is
  \<open>pre\<close>, \<open>cm://\<close>, \<open>post\<close> with no \<open>cm://\<close> starting further left, the URL of
  the push is \<open>pre\<close>, then \<open>http://\<close> when \<open>useHTTP\<close> is set and \<open>https://\<close>
  otherwise, then \<open>post\<close>: the marker is replaced and nothing else is changed. This is
  the URL that \<open>push\<close> uses: whenever the repository and the chart are found,
  \<open>push\<close> calls \<open>cm.NewClient\<close>, as its third call, with that URL and the merged
  credentials; and no other client is ever made by \<open>push\<close>.
\<close>

theorem push_url_rewrite:
  "(repoURL = pre @ ''cm://'' @ post \<and>
    (\<forall>a b. length a < length pre \<longrightarrow> repoURL \<noteq> a @ ''cm://'' @ b) \<longrightarrow>
      push_url p repoURL = pre @ (if useHTTP p then ''http://'' else ''https://'') @ post)
 \<and> (Call_NewClient opts \<in> set (calls (snd (push w p s))) \<and> Call_NewClient opts \<notin> set (calls s) \<longrightarrow>
      (\<exists>r err. (if matches_https_URL (repoName p) then TempRepoFromURL w (repoName p)
                 else GetRepoByName w (repoName p)) = (Some r, err) \<and>
         cm_URL opts = push_url p (URL r)))
 \<and> ((if matches_https_URL (repoName p) then TempRepoFromURL w (repoName p)
       else GetRepoByName w (repoName p)) = (Some r, None) \<and>
      GetChartByName w (chartName p) = (chart, None) \<and>
      (chartVersion p = [] \<or> chart \<noteq> None) \<longrightarrow>
      (\<exists>rest. calls (snd (push w p s)) =
         calls s @
         [if matches_https_URL (repoName p) then Call_TempRepoFromURL (repoName p)
          else Call_GetRepoByName (repoName p),
          Call_GetChartByName (chartName p),
          Call_NewClient (client_options p (push_url p (URL r))
            (if username p \<noteq> [] then username p else Username r)
            (if password p \<noteq> [] then password p else Password r))] @ rest))
 \<and> ((if matches_https_URL (repoName p) then TempRepoFromURL w (repoName p)
       else GetRepoByName w (repoName p)) = (Some r, None) \<and>
      GetChartByName w (chartName p) = (chart, None) \<and>
      (chartVersion p = [] \<or> chart \<noteq> None) \<and>
      URL r = pre @ ''cm://'' @ post \<and>
      (\<forall>a b. length a < length pre \<longrightarrow> URL r \<noteq> a @ ''cm://'' @ b) \<longrightarrow>
      Call_NewClient (client_options p
          (pre @ (if useHTTP p then ''http://'' else ''https://'') @ post)
          (if username p \<noteq> [] then username p else Username r)
          (if password p \<noteq> [] then password p else Password r))
        \<in> set (calls (snd (push w p s))))"
proof -
  let ?loc = "(if matches_https_URL (repoName p) then TempRepoFromURL w (repoName p)
       else GetRepoByName w (repoName p)) = (Some r, None) \<and>
      GetChartByName w (chartName p) = (chart, None) \<and>
      (chartVersion p = [] \<or> chart \<noteq> None)"
  have 1: "repoURL = pre @ ''cm://'' @ post \<and>
    (\<forall>a b. length a < length pre \<longrightarrow> repoURL \<noteq> a @ ''cm://'' @ b) \<longrightarrow>
      push_url p repoURL = pre @ (if useHTTP p then ''http://'' else ''https://'') @ post"
    using push_url_leftmost [of repoURL pre post p] by blast
  have 2: "Call_NewClient opts \<in> set (calls (snd (push w p s))) \<and> Call_NewClient opts \<notin> set (calls s) \<longrightarrow>
      (\<exists>r err. (if matches_https_URL (repoName p) then TempRepoFromURL w (repoName p)
                 else GetRepoByName w (repoName p)) = (Some r, err) \<and>
         cm_URL opts = push_url p (URL r))"
    using push_NewClient_url [of opts w p s] by blast
  have 3: "?loc \<longrightarrow>
      (\<exists>rest. calls (snd (push w p s)) =
         calls s @
         [if matches_https_URL (repoName p) then Call_TempRepoFromURL (repoName p)
          else Call_GetRepoByName (repoName p),
          Call_GetChartByName (chartName p),
          Call_NewClient (client_options p (push_url p (URL r))
            (if username p \<noteq> [] then username p else Username r)
            (if password p \<noteq> [] then password p else Password r))] @ rest)"
    using push_uses_url [of p w r chart s] by blast
  have 4: "Call_NewClient (client_options p
          (pre @ (if useHTTP p then ''http://'' else ''https://'') @ post)
          (if username p \<noteq> [] then username p else Username r)
          (if password p \<noteq> [] then password p else Password r))
        \<in> set (calls (snd (push w p s)))"
    if h: "?loc" and u: "URL r = pre @ ''cm://'' @ post"
      "\<forall>a b. length a < length pre \<longrightarrow> URL r \<noteq> a @ ''cm://'' @ b"
  proof -
    have e: "push_url p (URL r) = pre @ (if useHTTP p then ''http://'' else ''https://'') @ post"
      using push_url_leftmost [of "URL r" pre post p] u by blast
    from 3 h obtain rest where "calls (snd (push w p s)) =
         calls s @
         [if matches_https_URL (repoName p) then Call_TempRepoFromURL (repoName p)
          else Call_GetRepoByName (repoName p),
          Call_GetChartByName (chartName p),
          Call_NewClient (client_options p (push_url p (URL r))
            (if username p \<noteq> [] then username p else Username r)
            (if password p \<noteq> [] then password p else Password r))] @ rest"
      by blast
    then show ?thesis unfolding e by simp
  qed
  from 1 2 3 4 show ?thesis by blast
qed

text \<open>
  The stored URL of the example with and without \<open>useHTTP\<close>; a URL with a second
  marker, which stays; and the client that the example push makes, with and without
  \<open>useHTTP\<close>.
\<close>

theorem push_url_rewrite_witness:
  "push_url example_push_cmd ''cm://repo.example.com/library'' = ''https://repo.example.com/library''
 \<and> push_url (example_push_cmd\<lparr>useHTTP := True\<rparr>) ''cm://repo.example.com/library''
     = ''http://repo.example.com/library''
 \<and> push_url example_push_cmd ''cm://a/cm://b'' = ''https://a/cm://b''
 \<and> Call_NewClient (client_options example_push_cmd ''https://repo.example.com/library'' ''u'' ''secret'')
      \<in> set (calls (snd (push example_world example_push_cmd example_state)))
 \<and> Call_NewClient (client_options (example_push_cmd\<lparr>useHTTP := True\<rparr>)
        ''http://repo.example.com/library'' ''u'' ''secret'')
      \<in> set (calls (snd (push example_world (example_push_cmd\<lparr>useHTTP := True\<rparr>) example_state)))"
proof -
  define r where "r = \<lparr>URL = ''cm://repo.example.com/library'', Username = ''u'', Password = ''pw''\<rparr>"
  note th = push_url_rewrite [where pre = "[]" and w = example_world and s = example_state
      and opts = "client_options example_push_cmd ''https://repo.example.com/library'' ''u'' ''secret''"
      and r = r and chart = "Some ()"]
  have u: "useHTTP example_push_cmd = False" "username example_push_cmd = []"
    "password example_push_cmd = ''secret''" "chartVersion example_push_cmd = []"
    "repoName example_push_cmd = ''chartmuseum''" "chartName example_push_cmd = ''mychart''"
    by (simp_all add: example_push_cmd_def example_cmd_def)
  have n: "\<not> matches_https_URL ''chartmuseum''"
    by (simp add: matches_https_URL_def HasPrefix_def)
  have g: "GetRepoByName example_world ''chartmuseum'' = (Some r, None)"
    "GetChartByName example_world ''mychart'' = (Some (), None)"
    by (simp_all add: example_world_def r_def)
  have ru: "URL r = ''cm://repo.example.com/library''" "Username r = ''u''" "Password r = ''pw''"
    by (simp_all add: r_def)
  have 1: "push_url example_push_cmd ''cm://repo.example.com/library'' = ''https://repo.example.com/library''"
    using th [where p = example_push_cmd and repoURL = "''cm://repo.example.com/library''"
        and post = "''repo.example.com/library''"] u
    by simp
  have 2: "push_url (example_push_cmd\<lparr>useHTTP := True\<rparr>) ''cm://repo.example.com/library''
     = ''http://repo.example.com/library''"
    using th [where p = "example_push_cmd\<lparr>useHTTP := True\<rparr>"
        and repoURL = "''cm://repo.example.com/library''" and post = "''repo.example.com/library''"]
    by simp
  have 3: "push_url example_push_cmd ''cm://a/cm://b'' = ''https://a/cm://b''"
    using th [where p = example_push_cmd and repoURL = "''cm://a/cm://b''"
        and post = "''a/cm://b''"] u
    by simp
  have 4: "Call_NewClient (client_options example_push_cmd ''https://repo.example.com/library'' ''u'' ''secret'')
      \<in> set (calls (snd (push example_world example_push_cmd example_state)))"
    using th [where p = example_push_cmd and repoURL = "''cm://repo.example.com/library''"
        and post = "''repo.example.com/library''"] u n g ru
    by simp
  have 5: "Call_NewClient (client_options (example_push_cmd\<lparr>useHTTP := True\<rparr>)
        ''http://repo.example.com/library'' ''u'' ''secret'')
      \<in> set (calls (snd (push example_world (example_push_cmd\<lparr>useHTTP := True\<rparr>) example_state)))"
    using th [where p = "example_push_cmd\<lparr>useHTTP := True\<rparr>"
        and repoURL = "''cm://repo.example.com/library''"
        and post = "''repo.example.com/library''"] u n g ru
    by simp
  from 1 2 3 4 5 show ?thesis by (intro conjI)
qed


subsection \<open>The temporary directory\<close>









subsection \<open>A repository given by its URL\<close>

text \<open>
  Claim C9. For a repository identifier that matches \<open>^https?://\<close>, \<open>push\<close> reads
  \<open>repo.URL\<close> of what \<open>helm.TempRepoFromURL\<close> returned before it looks at the
  error returned with it. So when the descriptor is nil, \<open>push\<close> panics on the nil
  pointer, with or without an error; and when an error is returned, \<open>push\<close> returns
  that error if and only if the descriptor returned with it is not nil.
\<close>

theorem push_reads_URL_before_err:
  assumes "matches_https_URL (repoName p)"
  shows "(\<forall>err. TempRepoFromURL w (repoName p) = (None, err) \<longrightarrow>
           push w p s = (Panic_nil_dereference, log_call (Call_TempRepoFromURL (repoName p)) s))
 \<and> (\<forall>repo e. TempRepoFromURL w (repoName p) = (Some repo, Some e) \<longrightarrow>
           push w p s = (Return (Some e), log_call (Call_TempRepoFromURL (repoName p)) s))
 \<and> (\<forall>repo e. TempRepoFromURL w (repoName p) = (repo, Some e) \<longrightarrow>
           (fst (push w p s) = Return (Some e) \<longleftrightarrow> repo \<noteq> None) \<and>
           (fst (push w p s) = Panic_nil_dereference \<longleftrightarrow> repo = None))"
proof -
  have 1: "\<forall>err. TempRepoFromURL w (repoName p) = (None, err) \<longrightarrow>
           push w p s = (Panic_nil_dereference, log_call (Call_TempRepoFromURL (repoName p)) s)"
    using assms by (simp add: push_def push_repo_def Let_def)
  have 2: "\<forall>repo e. TempRepoFromURL w (repoName p) = (Some repo, Some e) \<longrightarrow>
           push w p s = (Return (Some e), log_call (Call_TempRepoFromURL (repoName p)) s)"
    using assms by (simp add: push_def push_repo_def Let_def)
  have 3: "(fst (push w p s) = Return (Some e) \<longleftrightarrow> repo \<noteq> None) \<and>
           (fst (push w p s) = Panic_nil_dereference \<longleftrightarrow> repo = None)"
    if "TempRepoFromURL w (repoName p) = (repo, Some e)" for repo e
    using that 1 2 by (cases repo) auto
  from 1 2 3 show ?thesis by blast
qed

text \<open>
  A locator that returns nil with its error makes the example panic; one that returns
  a descriptor with its error makes it return the error.
\<close>

theorem push_reads_URL_before_err_witness:
  "push (example_world\<lparr>TempRepoFromURL := (\<lambda>url. (None, Some (GoError ''invalid URL'')))\<rparr>)
     example_url_cmd example_state
   = (Panic_nil_dereference,
      example_state\<lparr>calls := [Call_TempRepoFromURL ''https://charts.example.com'']\<rparr>)
 \<and> push (example_world\<lparr>TempRepoFromURL := (\<lambda>url.
        (Some \<lparr>URL = url, Username = [], Password = []\<rparr>, Some (GoError ''invalid URL'')))\<rparr>)
     example_url_cmd example_state
   = (Return (Some (GoError ''invalid URL'')),
      example_state\<lparr>calls := [Call_TempRepoFromURL ''https://charts.example.com'']\<rparr>)"
proof -
  have m: "matches_https_URL (repoName example_url_cmd)"
    "repoName example_url_cmd = ''https://charts.example.com''"
    by (simp_all add: matches_https_URL_def HasPrefix_def example_url_cmd_def example_cmd_def)
  have 1: "push (example_world\<lparr>TempRepoFromURL := (\<lambda>url. (None, Some (GoError ''invalid URL'')))\<rparr>)
     example_url_cmd example_state
   = (Panic_nil_dereference,
      example_state\<lparr>calls := [Call_TempRepoFromURL ''https://charts.example.com'']\<rparr>)"
    using push_reads_URL_before_err [OF m(1),
        of "example_world\<lparr>TempRepoFromURL := (\<lambda>url. (None, Some (GoError ''invalid URL'')))\<rparr>"
        example_state]
    by (simp add: m(2) log_call_def example_state_def)
  have 2: "push (example_world\<lparr>TempRepoFromURL := (\<lambda>url.
        (Some \<lparr>URL = url, Username = [], Password = []\<rparr>, Some (GoError ''invalid URL'')))\<rparr>)
     example_url_cmd example_state
   = (Return (Some (GoError ''invalid URL'')),
      example_state\<lparr>calls := [Call_TempRepoFromURL ''https://charts.example.com'']\<rparr>)"
    using push_reads_URL_before_err [OF m(1),
        of "example_world\<lparr>TempRepoFromURL := (\<lambda>url.
        (Some \<lparr>URL = url, Username = [], Password = []\<rparr>, Some (GoError ''invalid URL'')))\<rparr>"
        example_state]
    by (simp add: m(2) log_call_def example_state_def)
  from 1 2 show ?thesis by (intro conjI)
qed


section \<open>The command\<close>

lemma setFieldsFromEnv_calls:
  assumes "c \<in> set (calls (snd (setFieldsFromEnv w p s)))"
  shows "c \<in> set (calls s) \<or> is_config_call c"
proof (cases "accessToken (fields_from_env w p) = []")
  case False
  with assms show ?thesis by (simp add: setFieldsFromEnv_def Let_def)
next
  case True
  obtain cs where cs: "calls (snd (setAccessTokenFromConfigFile w (fields_from_env w p) s)) = calls s @ cs"
    "set cs \<subseteq> {Call_user_Current} \<union> range Call_Stat \<union> range Call_ReadFile"
    using setAccessToken_calls [of w "fields_from_env w p" s] by blast
  from assms True cs(1) have "c \<in> set (calls s) \<or> c \<in> set cs"
    by (simp add: setFieldsFromEnv_def Let_def)
  with cs(2) show ?thesis by auto
qed

lemma download_calls_kind:
  assumes "c \<in> set (calls (snd (download w p fileURL s)))"
  shows "c \<in> set (calls s) \<or> (\<exists>opts. c = Call_NewClient opts) \<or> is_download_call c"
  using assms
  by (auto simp: download_def Let_def log_call_def handleDownloadResponse_state
      split: sum.splits prod.splits option.splits)

text \<open>
  Claim C6. With four arguments of which the last starts with \<open>cm://\<close>, \<open>RunE\<close>
  resolves the settings and runs \<open>download\<close> on the last argument; with two arguments
  it resolves the settings and runs \<open>push\<close>; with any other arguments it returns the
  usage error and leaves the state as it was, so that no call at all is made. A call to
  \<open>DownloadFile\<close> is made only in the first case, a call that only \<open>push\<close> makes is
  made only in the second, and a call to the network only in one of the two.
\<close>

theorem RunE_modes:
  "(length args = 4 \<and> HasPrefix (args ! 3) ''cm://'' \<longrightarrow>
      RunE w p args s =
        download w (fst (setFieldsFromEnv w p s)) (args ! 3) (snd (setFieldsFromEnv w p s)))
 \<and> (length args = 2 \<longrightarrow>
      RunE w p args s =
        push w (fst (setFieldsFromEnv w (p\<lparr>chartName := args ! 0, repoName := args ! 1\<rparr>) s))
          (snd (setFieldsFromEnv w (p\<lparr>chartName := args ! 0, repoName := args ! 1\<rparr>) s)))
 \<and> (length args \<noteq> 2 \<and> \<not> (length args = 4 \<and> HasPrefix (args ! 3) ''cm://'') \<longrightarrow>
      RunE w p args s =
        (Return (Some (GoError
           ''This command needs 2 arguments: name of chart, name of chart repository (or repo URL)'')), s))
 \<and> (\<forall>c. c \<in> set (calls (snd (RunE w p args s))) \<and> c \<notin> set (calls s) \<and> is_download_call c \<longrightarrow>
      length args = 4 \<and> HasPrefix (args ! 3) ''cm://'')
 \<and> (\<forall>c. c \<in> set (calls (snd (RunE w p args s))) \<and> c \<notin> set (calls s) \<and> is_push_call c \<longrightarrow>
      length args = 2)
 \<and> (\<forall>c. c \<in> set (calls (snd (RunE w p args s))) \<and> c \<notin> set (calls s) \<and> is_network_call c \<longrightarrow>
      length args = 2 \<or> (length args = 4 \<and> HasPrefix (args ! 3) ''cm://''))"
proof -
  let ?dl = "length args = 4 \<and> HasPrefix (args ! 3) ''cm://''"
  have 1: "?dl \<longrightarrow> RunE w p args s =
        download w (fst (setFieldsFromEnv w p s)) (args ! 3) (snd (setFieldsFromEnv w p s))"
    by (simp add: RunE_def split: prod.splits)
  have 2: "length args = 2 \<longrightarrow> RunE w p args s =
        push w (fst (setFieldsFromEnv w (p\<lparr>chartName := args ! 0, repoName := args ! 1\<rparr>) s))
          (snd (setFieldsFromEnv w (p\<lparr>chartName := args ! 0, repoName := args ! 1\<rparr>) s))"
    by (simp add: RunE_def split: prod.splits)
  have 3: "length args \<noteq> 2 \<and> \<not> ?dl \<longrightarrow> RunE w p args s =
        (Return (Some (GoError
           ''This command needs 2 arguments: name of chart, name of chart repository (or repo URL)'')), s)"
    by (simp add: RunE_def)
  have dl: "c \<in> set (calls s) \<or> is_config_call c \<or> (\<exists>opts. c = Call_NewClient opts) \<or> is_download_call c"
    if "?dl" "c \<in> set (calls (snd (RunE w p args s)))" for c
    using that 1 download_calls_kind [of c w "fst (setFieldsFromEnv w p s)" "args ! 3"
        "snd (setFieldsFromEnv w p s)"]
      setFieldsFromEnv_calls [of c w p s]
    by auto
  have ps: "c \<in> set (calls s) \<or> is_config_call c \<or> (\<exists>opts. c = Call_NewClient opts) \<or> is_push_call c"
    if "length args = 2" "c \<in> set (calls (snd (RunE w p args s)))" for c
    using that 2 push_calls [of c w
        "fst (setFieldsFromEnv w (p\<lparr>chartName := args ! 0, repoName := args ! 1\<rparr>) s)"
        "snd (setFieldsFromEnv w (p\<lparr>chartName := args ! 0, repoName := args ! 1\<rparr>) s)"]
      setFieldsFromEnv_calls [of c w "p\<lparr>chartName := args ! 0, repoName := args ! 1\<rparr>" s]
    by auto
  have us: "c \<in> set (calls s)"
    if "length args \<noteq> 2" "\<not> ?dl" "c \<in> set (calls (snd (RunE w p args s)))" for c
    using that 3 by simp
  have k: "\<not> (is_config_call c \<and> is_download_call c)" "\<not> (is_config_call c \<and> is_push_call c)"
    "\<not> (is_push_call c \<and> is_download_call c)" "\<not> (is_config_call c \<and> is_network_call c)"
    "\<not> is_download_call (Call_NewClient opts)" "\<not> is_push_call (Call_NewClient opts)"
    "\<not> is_network_call (Call_NewClient opts)"
    for c opts
    by (cases c; simp)+
  have 4: "\<forall>c. c \<in> set (calls (snd (RunE w p args s))) \<and> c \<notin> set (calls s) \<and> is_download_call c \<longrightarrow> ?dl"
    using ps us k by (metis (full_types))
  have 5: "\<forall>c. c \<in> set (calls (snd (RunE w p args s))) \<and> c \<notin> set (calls s) \<and> is_push_call c \<longrightarrow>
      length args = 2"
    using dl us k by (metis (full_types))
  have 6: "\<forall>c. c \<in> set (calls (snd (RunE w p args s))) \<and> c \<notin> set (calls s) \<and> is_network_call c \<longrightarrow>
      length args = 2 \<or> ?dl"
    using us by blast
  from 1 2 3 4 5 6 show ?thesis by (intro conjI)
qed


text \<open>
  One, three and five arguments, and four arguments without \<open>cm://\<close>, give the usage
  error and the state unchanged; two arguments run the push of the example, which
  uploads; four arguments with \<open>cm://\<close> run the download, which prints the body.
\<close>

theorem RunE_modes_witness:
  "RunE example_world example_cmd [''mychart''] example_state =
     (Return (Some (GoError
        ''This command needs 2 arguments: name of chart, name of chart repository (or repo URL)'')),
      example_state)
 \<and> RunE example_world example_cmd [''mychart'', ''chartmuseum'', ''extra''] example_state =
     (Return (Some (GoError
        ''This command needs 2 arguments: name of chart, name of chart repository (or repo URL)'')),
      example_state)
 \<and> RunE example_world example_cmd [''a'', ''b'', ''c'', ''d'', ''cm://repo.example.com/x''] example_state =
     (Return (Some (GoError
        ''This command needs 2 arguments: name of chart, name of chart repository (or repo URL)'')),
      example_state)
 \<and> RunE example_world example_cmd [''helm'', ''cert'', ''key'', ''https://repo.example.com/x''] example_state =
     (Return (Some (GoError
        ''This command needs 2 arguments: name of chart, name of chart repository (or repo URL)'')),
      example_state)
 \<and> fst (RunE example_world example_cmd [''mychart'', ''chartmuseum''] example_state) = Return None
 \<and> (\<exists>c \<in> set (calls (snd (RunE example_world example_cmd [''mychart'', ''chartmuseum''] example_state))).
       is_push_call c \<and> is_network_call c)
 \<and> RunE example_world example_cmd
       [''helm'', ''cert'', ''key'', ''cm://repo.example.com/library/charts/foo-1.0.0.tgz''] example_state =
     (Return None, example_state\<lparr>stdout := ''abc'', calls :=
        [Call_NewClient (client_options (fst (setFieldsFromEnv example_world example_cmd example_state))
           ''http://repo.example.com/library'' ''admin'' ''secret''),
         Call_DownloadFile (client_options (fst (setFieldsFromEnv example_world example_cmd example_state))
           ''http://repo.example.com/library'' ''admin'' ''secret'') ''charts/foo-1.0.0.tgz'']\<rparr>)"
proof -
  note th = RunE_modes [where w = example_world and p = example_cmd and s = example_state]
  note ev = push_unfold example_world_def example_cmd_def example_state_def
    setFieldsFromEnv_def fields_from_env_def env_string_def env_bool_def ParseBool_def
  let ?usage = "(Return (Some (GoError
        ''This command needs 2 arguments: name of chart, name of chart repository (or repo URL)'')),
      example_state)"
  have 1: "RunE example_world example_cmd [''mychart''] example_state = ?usage"
    using th [of "[''mychart'']"] by simp
  have 2: "RunE example_world example_cmd [''mychart'', ''chartmuseum'', ''extra''] example_state = ?usage"
    using th [of "[''mychart'', ''chartmuseum'', ''extra'']"] by simp
  have 3: "RunE example_world example_cmd [''a'', ''b'', ''c'', ''d'', ''cm://repo.example.com/x''] example_state
      = ?usage"
    using th [of "[''a'', ''b'', ''c'', ''d'', ''cm://repo.example.com/x'']"] by simp
  have 4: "RunE example_world example_cmd [''helm'', ''cert'', ''key'', ''https://repo.example.com/x''] example_state
      = ?usage"
    using th [of "[''helm'', ''cert'', ''key'', ''https://repo.example.com/x'']"]
    by (simp add: HasPrefix_def)
  have r: "RunE example_world example_cmd [''mychart'', ''chartmuseum''] example_state =
      push example_world
        (fst (setFieldsFromEnv example_world
           (example_cmd\<lparr>chartName := ''mychart'', repoName := ''chartmuseum''\<rparr>) example_state))
        (snd (setFieldsFromEnv example_world
           (example_cmd\<lparr>chartName := ''mychart'', repoName := ''chartmuseum''\<rparr>) example_state))"
    using th [of "[''mychart'', ''chartmuseum'']"] by simp
  have 5: "fst (RunE example_world example_cmd [''mychart'', ''chartmuseum''] example_state) = Return None"
    unfolding r by (simp add: ev)
  have "Call_UploadChartPackage
      (client_options (fst (setFieldsFromEnv example_world
           (example_cmd\<lparr>chartName := ''mychart'', repoName := ''chartmuseum''\<rparr>) example_state))
         ''http://repo.example.com/library'' ''admin'' ''secret'')
      ''/tmp/helm-push-1/mychart-0.1.0.tgz'' False
    \<in> set (calls (snd (RunE example_world example_cmd [''mychart'', ''chartmuseum''] example_state)))"
    unfolding r by (simp add: ev)
  then have 6: "\<exists>c \<in> set (calls (snd (RunE example_world example_cmd [''mychart'', ''chartmuseum''] example_state))).
       is_push_call c \<and> is_network_call c"
    by (rule rev_bexI) simp
  have d: "RunE example_world example_cmd
       [''helm'', ''cert'', ''key'', ''cm://repo.example.com/library/charts/foo-1.0.0.tgz''] example_state =
      download example_world (fst (setFieldsFromEnv example_world example_cmd example_state))
        ''cm://repo.example.com/library/charts/foo-1.0.0.tgz''
        (snd (setFieldsFromEnv example_world example_cmd example_state))"
    using th [of "[''helm'', ''cert'', ''key'', ''cm://repo.example.com/library/charts/foo-1.0.0.tgz'']"]
    by (simp add: HasPrefix_def)
  have dp: "download_parts ''/library/charts/foo-1.0.0.tgz'' = Some (''/library'', ''charts/foo-1.0.0.tgz'')"
    using download_parts_charts [of "''foo-1.0.0.tgz''" "''/library''"] by simp
  have 7: "RunE example_world example_cmd
       [''helm'', ''cert'', ''key'', ''cm://repo.example.com/library/charts/foo-1.0.0.tgz''] example_state =
     (Return None, example_state\<lparr>stdout := ''abc'', calls :=
        [Call_NewClient (client_options (fst (setFieldsFromEnv example_world example_cmd example_state))
           ''http://repo.example.com/library'' ''admin'' ''secret''),
         Call_DownloadFile (client_options (fst (setFieldsFromEnv example_world example_cmd example_state))
           ''http://repo.example.com/library'' ''admin'' ''secret'') ''charts/foo-1.0.0.tgz'']\<rparr>)"
    unfolding d by (simp add: download_def handleDownloadResponse_def dp ev)
  from 1 2 3 4 5 6 7 show ?thesis by (intro conjI)
qed

end
